theory Spec2Isabelle
  imports Complex_Main
begin

section \<open>Numbers, vectors and errors\<close>

text \<open>
  The simulator computes with Python floats and \<^verbatim>\<open>pygame.math.Vector3\<close>. In the
  model of the program both are real numbers: every comparison, branch and assignment of
  the source is kept, and the arithmetic is exact. A state of the model is a state of
  the program whose values are finite (no infinity, no NaN), and the model follows a run
  of the program as long as no result of the arithmetic overflows. Two places where a
  claim depends on the floats themselves are modelled a second time further down: the
  speed limit in double precision, and the altitude limits on the values that a Python
  float can take, NaN and the infinities included.

  An exception of the source is a value \<open>Inl e\<close>; nothing in the program catches one,
  so a raised exception ends the run.
\<close>

datatype error = ZeroDivisionError | ValueError | TypeError | NameError | OverflowError

record Vector3 =
  vx :: real
  vy :: real
  vz :: real

definition Vec :: "real \<Rightarrow> real \<Rightarrow> real \<Rightarrow> Vector3" where
  "Vec a b c = \<lparr>vx = a, vy = b, vz = c\<rparr>"

definition vadd :: "Vector3 \<Rightarrow> Vector3 \<Rightarrow> Vector3" where
  "vadd u v = Vec (vx u + vx v) (vy u + vy v) (vz u + vz v)"

definition vscale :: "Vector3 \<Rightarrow> real \<Rightarrow> Vector3" where
  "vscale v k = Vec (vx v * k) (vy v * k) (vz v * k)"

definition vlength :: "Vector3 \<Rightarrow> real" where
  "vlength v = sqrt (vx v * vx v + vy v * vy v + vz v * vz v)"

text \<open>\<^verbatim>\<open>Vector3.normalize()\<close> raises ValueError on a vector of length zero.\<close>

definition normalize :: "Vector3 \<Rightarrow> error + Vector3" where
  "normalize v =
     (if vlength v = 0 then Inl ValueError
      else Inr (Vec (vx v / vlength v) (vy v / vlength v) (vz v / vlength v)))"

text \<open>
  \<^verbatim>\<open>math.exp\<close> raises OverflowError when the result is beyond the largest double.
\<close>

definition double_max :: real where
  "double_max = (2 - 1 / 2 ^ 52) * 2 ^ 1023"

definition py_exp :: "real \<Rightarrow> error + real" where
  "py_exp x = (if exp x > double_max then Inl OverflowError else Inr (exp x))"

text \<open>Python's \<^verbatim>\<open>int(x)\<close> on a float truncates toward zero.\<close>

definition py_int :: "real \<Rightarrow> int" where
  "py_int r = (if 0 \<le> r then \<lfloor>r\<rfloor> else \<lceil>r\<rceil>)"

section \<open>aircraft.py\<close>

datatype key =
  K_w | K_s | K_a | K_d | K_q | K_e | K_LSHIFT | K_LCTRL | K_SPACE
  | K_ESCAPE | K_p | K_r | K_m | K_c | K_TAB | K_OTHER

record MissionData =
  md_time :: "real list"
  md_altitude :: "real list"
  md_speed :: "real list"
  md_fuel :: "real list"
  md_range :: "real list"
  md_phase :: string

text \<open>
  The attributes that \<^verbatim>\<open>__init__\<close> assigns from a literal and that no statement of
  the program assigns again (the aerodynamic coefficients and the performance limits)
  are constants. The five attributes that a configuration file may set are fields.
\<close>

definition CL0 :: real where "CL0 = 0.2"
definition CL_alpha :: real where "CL_alpha = 5.0"
definition CD0 :: real where "CD0 = 0.025"
definition K_induced :: real where "K_induced = 0.04"
definition max_speed :: real where "max_speed = 250"
definition min_speed :: real where "min_speed = 60"
definition service_ceiling :: real where "service_ceiling = 12000"
definition max_load_factor :: real where "max_load_factor = 2.5"

record Aircraft =
  position :: Vector3
  velocity :: Vector3
  rotation :: Vector3
  mass :: real
  wing_area :: real
  max_thrust :: real
  fuel_capacity :: real
  fuel_flow_rate :: real
  fuel_mass :: real
  throttle :: real
  mission_data :: MissionData
  total_range :: real
  mission_time :: real

definition empty_mission_data :: MissionData where
  "empty_mission_data =
     \<lparr>md_time = [], md_altitude = [], md_speed = [], md_fuel = [], md_range = [],
      md_phase = ''GROUND''\<rparr>"

text \<open>\<^verbatim>\<open>Aircraft.__init__\<close>, with the five configurable values as arguments.\<close>

definition Aircraft_init :: "real \<Rightarrow> real \<Rightarrow> real \<Rightarrow> real \<Rightarrow> real \<Rightarrow> Aircraft" where
  "Aircraft_init m s t c f =
     \<lparr>position = Vec 0 500 0, velocity = Vec 0 0 100, rotation = Vec 0 0 0,
      mass = m, wing_area = s, max_thrust = t, fuel_capacity = c, fuel_flow_rate = f,
      fuel_mass = c * 0.8, throttle = 0.5,
      mission_data = empty_mission_data, total_range = 0, mission_time = 0\<rparr>"

text \<open>\<^verbatim>\<open>Aircraft()\<close> without a configuration file, as main.py constructs it.\<close>

definition Aircraft_default :: Aircraft where
  "Aircraft_default = Aircraft_init 50000 150 200000 15000 2"

definition get_total_mass :: "Aircraft \<Rightarrow> real" where
  "get_total_mass a = mass a + fuel_mass a"

definition get_thrust :: "Aircraft \<Rightarrow> real" where
  "get_thrust a =
     (let altitude_factor =
            (if vy (position a) < 20000 then 1.0 - vy (position a) / 20000 else 0.5);
          speed = vlength (velocity a);
          speed_factor = (if speed < 1000 then 1.0 - speed / 1000 else 0.0)
      in max_thrust a * throttle a * altitude_factor * speed_factor)"

text \<open>
  The air density, the first statement of \<^verbatim>\<open>get_lift\<close> and of \<^verbatim>\<open>get_drag\<close>; it is
  computed, and may raise, before the speed is looked at.
\<close>

definition rho :: "Aircraft \<Rightarrow> error + real" where
  "rho a =
     (case py_exp (- vy (position a) / 8000) of
        Inl e \<Rightarrow> Inl e
      | Inr r \<Rightarrow> Inr (1.225 * r))"

definition get_lift :: "Aircraft \<Rightarrow> real \<Rightarrow> error + real" where
  "get_lift a alpha =
     (case rho a of
        Inl e \<Rightarrow> Inl e
      | Inr r \<Rightarrow>
          (let V = vlength (velocity a) in
           if V < 0.1 then Inr 0
           else let CL = max (-1.5) (min 1.5 (CL0 + CL_alpha * alpha))
                in Inr (0.5 * r * V * V * wing_area a * CL)))"

definition get_drag :: "Aircraft \<Rightarrow> real \<Rightarrow> error + real" where
  "get_drag a alpha =
     (case rho a of
        Inl e \<Rightarrow> Inl e
      | Inr r \<Rightarrow>
          (let V = vlength (velocity a) in
           if V < 0.1 then Inr 0
           else let CL = CL0 + CL_alpha * alpha;
                    CD = CD0 + K_induced * CL * CL
                in Inr (0.5 * r * V * V * wing_area a * CD)))"

text \<open>\<^verbatim>\<open>update_fuel\<close> returns the consumption and stores the new fuel mass.\<close>

definition fuel_consumption :: "Aircraft \<Rightarrow> real \<Rightarrow> real" where
  "fuel_consumption a dt =
     fuel_flow_rate a * throttle a * dt *
     (if vy (position a) < 15000 then 1 - vy (position a) / 30000 else 0.5)"

definition update_fuel :: "Aircraft \<Rightarrow> real \<Rightarrow> real \<times> Aircraft" where
  "update_fuel a dt =
     (fuel_consumption a dt, a\<lparr>fuel_mass := max 0 (fuel_mass a - fuel_consumption a dt)\<rparr>)"

text \<open>
  \<^verbatim>\<open>Aircraft.update\<close>, lines 138 to 174: the fuel check, then the control inputs.
  Each commented block of the source is a function here, and \<open>update_controls\<close> runs
  them in the order of the source; inside a block every \<^verbatim>\<open>if\<close> is one of its own.
\<close>

definition fuel_check :: "Aircraft \<Rightarrow> Aircraft" where
  "fuel_check a = (if fuel_mass a \<le> 0 then a\<lparr>throttle := 0\<rparr> else a)"

definition pitch_control :: "Aircraft \<Rightarrow> real \<Rightarrow> (key \<Rightarrow> bool) \<Rightarrow> Aircraft" where
  "pitch_control a0 dt keys =
     (let pitch_rate = 1.5 * dt;
          a = (if keys K_w
               then a0\<lparr>rotation := (rotation a0)\<lparr>vx := min (pi / 6) (vx (rotation a0) + pitch_rate)\<rparr>\<rparr>
               else a0)
      in if keys K_s
         then a\<lparr>rotation := (rotation a)\<lparr>vx := max (- pi / 6) (vx (rotation a) - pitch_rate)\<rparr>\<rparr>
         else a)"

definition roll_control :: "Aircraft \<Rightarrow> real \<Rightarrow> (key \<Rightarrow> bool) \<Rightarrow> Aircraft" where
  "roll_control a0 dt keys =
     (let roll_rate = 2.0 * dt;
          a = (if keys K_a
               then a0\<lparr>rotation := (rotation a0)\<lparr>vz := max (- pi / 3) (vz (rotation a0) - roll_rate)\<rparr>\<rparr>
               else a0)
      in if keys K_d
         then a\<lparr>rotation := (rotation a)\<lparr>vz := min (pi / 3) (vz (rotation a) + roll_rate)\<rparr>\<rparr>
         else a)"

definition yaw_control :: "Aircraft \<Rightarrow> real \<Rightarrow> (key \<Rightarrow> bool) \<Rightarrow> Aircraft" where
  "yaw_control a0 dt keys =
     (let yaw_rate = 1.0 * dt;
          a = (if keys K_q
               then a0\<lparr>rotation := (rotation a0)\<lparr>vy := vy (rotation a0) - yaw_rate\<rparr>\<rparr>
               else a0)
      in if keys K_e
         then a\<lparr>rotation := (rotation a)\<lparr>vy := vy (rotation a) + yaw_rate\<rparr>\<rparr>
         else a)"

definition throttle_control :: "Aircraft \<Rightarrow> real \<Rightarrow> (key \<Rightarrow> bool) \<Rightarrow> Aircraft" where
  "throttle_control a0 dt keys =
     (let a = (if keys K_LSHIFT then a0\<lparr>throttle := min 1.0 (throttle a0 + dt)\<rparr> else a0)
      in if keys K_LCTRL then a\<lparr>throttle := max 0.0 (throttle a - dt)\<rparr> else a)"

definition auto_level :: "Aircraft \<Rightarrow> (key \<Rightarrow> bool) \<Rightarrow> Aircraft" where
  "auto_level a keys =
     (if keys K_SPACE
      then a\<lparr>rotation := (rotation a)\<lparr>vx := vx (rotation a) * 0.95,
                                       vz := vz (rotation a) * 0.95\<rparr>\<rparr>
      else a)"

definition update_controls :: "Aircraft \<Rightarrow> real \<Rightarrow> (key \<Rightarrow> bool) \<Rightarrow> Aircraft" where
  "update_controls a dt keys =
     auto_level
       (throttle_control
          (yaw_control (roll_control (pitch_control (fuel_check a) dt keys) dt keys) dt keys)
          dt keys)
       keys"

text \<open>
  \<^verbatim>\<open>update_physics\<close>, lines 187 to 235: the forces and the total acceleration.
  The lift and the drag are computed first and may raise OverflowError; then
  \<^verbatim>\<open>thrust / mass\<close> is the first division by the total mass and raises
  ZeroDivisionError when it is zero.
\<close>

definition thrust_dir :: "Aircraft \<Rightarrow> Vector3" where
  "thrust_dir a =
     (let cos_pitch = cos (vx (rotation a));
          sin_pitch = sin (vx (rotation a));
          cos_yaw = cos (vy (rotation a));
          sin_yaw = sin (vy (rotation a))
      in Vec (cos_pitch * sin_yaw) sin_pitch (cos_pitch * cos_yaw))"

definition acceleration :: "Aircraft \<Rightarrow> error + Vector3" where
  "acceleration a =
     (let speed = vlength (velocity a);
          alpha = (if speed > 0.1 then vx (rotation a) else 0);
          thrust = get_thrust a
      in case get_lift a alpha of
           Inl e \<Rightarrow> Inl e
         | Inr lift \<Rightarrow>
             (case get_drag a alpha of
                Inl e \<Rightarrow> Inl e
              | Inr drag \<Rightarrow>
                  (let m = get_total_mass a in
                   if m = 0 then Inl ZeroDivisionError
                   else
                     (case (if speed > 0.1
                            then (case normalize (velocity a) of
                                    Inl e \<Rightarrow> Inl e
                                  | Inr n \<Rightarrow> Inr (vscale n (- drag / m)))
                            else Inr (Vec 0 0 0)) of
                        Inl e \<Rightarrow> Inl e
                      | Inr drag_accel \<Rightarrow>
                          Inr (vadd (vadd (vadd (vscale (thrust_dir a) (thrust / m))
                                                drag_accel)
                                          (Vec 0 (lift / m) 0))
                                    (Vec 0 (- 9.81) 0))))))"

text \<open>Lines 240 to 243: the speed limit, by renormalising the velocity.\<close>

definition clamp_speed :: "Vector3 \<Rightarrow> error + Vector3" where
  "clamp_speed v =
     (if vlength v > max_speed
      then (case normalize v of Inl e \<Rightarrow> Inl e | Inr n \<Rightarrow> Inr (vscale n max_speed))
      else Inr v)"

text \<open>Lines 248 to 255: the altitude limits.\<close>

definition clamp_altitude :: "Aircraft \<Rightarrow> Aircraft" where
  "clamp_altitude a0 =
     (let a = (if vy (position a0) < 10
               then (let b = a0\<lparr>position := (position a0)\<lparr>vy := 10\<rparr>\<rparr>
                     in if vy (velocity b) < 0
                        then b\<lparr>velocity := (velocity b)\<lparr>vy := 0\<rparr>\<rparr>
                        else b)
               else a0)
      in if vy (position a) > service_ceiling
         then a\<lparr>position := (position a)\<lparr>vy := service_ceiling\<rparr>\<rparr>
         else a)"

definition update_physics :: "Aircraft \<Rightarrow> real \<Rightarrow> error + Aircraft" where
  "update_physics a dt =
     (case acceleration a of
        Inl e \<Rightarrow> Inl e
      | Inr acc \<Rightarrow>
          (case clamp_speed (vadd (velocity a) (vscale acc dt)) of
             Inl e \<Rightarrow> Inl e
           | Inr v \<Rightarrow>
               Inr (clamp_altitude
                      (a\<lparr>velocity := v, position := vadd (position a) (vscale v dt)\<rparr>))))"

definition update_mission_data :: "Aircraft \<Rightarrow> real \<Rightarrow> Aircraft" where
  "update_mission_data a0 dt =
     (let a = a0\<lparr>mission_time := mission_time a0 + dt\<rparr>;
          horizontal_speed = sqrt ((vx (velocity a))\<^sup>2 + (vz (velocity a))\<^sup>2);
          a = a\<lparr>total_range := total_range a + horizontal_speed * dt\<rparr>;
          d = mission_data a
      in if py_int (mission_time a) > int (length (md_time d))
         then a\<lparr>mission_data :=
                  d\<lparr>md_time := md_time d @ [mission_time a],
                    md_altitude := md_altitude d @ [vy (position a)],
                    md_speed := md_speed d @ [vlength (velocity a)],
                    md_fuel := md_fuel d @ [fuel_mass a],
                    md_range := md_range d @ [total_range a]\<rparr>\<rparr>
         else a)"

text \<open>
  \<^verbatim>\<open>Aircraft.update\<close> and \<^verbatim>\<open>Aircraft.reset\<close>. Three classes of the source have
  a method \<open>update\<close> and two a method \<open>reset\<close>; the class is put in front of the name.
\<close>

definition Aircraft_update :: "Aircraft \<Rightarrow> real \<Rightarrow> (key \<Rightarrow> bool) \<Rightarrow> error + Aircraft" where
  "Aircraft_update a dt keys =
     (case update_physics (update_controls a dt keys) dt of
        Inl e \<Rightarrow> Inl e
      | Inr b \<Rightarrow> Inr (update_mission_data (snd (update_fuel b dt)) dt))"

definition Aircraft_reset :: "Aircraft \<Rightarrow> Aircraft" where
  "Aircraft_reset a =
     a\<lparr>position := Vec 0 500 0, velocity := Vec 0 0 100, rotation := Vec 0 0 0,
       throttle := 0.5, fuel_mass := fuel_capacity a * 0.8,
       total_range := 0, mission_time := 0, mission_data := empty_mission_data\<rparr>"

section \<open>aircraft.py: the speed limit in double precision\<close>

text \<open>
  Lines 241 to 243 again, with the arithmetic of the machine. A Python float and a
  coordinate of a \<^verbatim>\<open>Vector3\<close> are IEEE 754 binary64 numbers, and every operation
  returns the exact result rounded to the nearest number of 53 significant bits, a tie
  going to the even one. \<open>rne\<close> rounds to the nearest integer in that way and \<open>round53\<close>
  to 53 significant bits. \<open>round53\<close> has no bound on the exponent: it is the rounding
  of the machine as long as a result neither overflows nor underflows, that is, a result
  other than zero has a magnitude between \<open>2 ^ -1022\<close> and \<open>double_max\<close>. That holds
  of every step below when each coordinate of the velocity is zero or between
  \<open>10 ^ -100\<close> and \<open>10 ^ 30\<close> in magnitude.
\<close>

definition rne :: "real \<Rightarrow> int" where
  "rne m =
     (let f = \<lfloor>m\<rfloor>; r = m - real_of_int f in
      if r < 1/2 then f else if 1/2 < r then f + 1 else if even f then f else f + 1)"

definition round53 :: "real \<Rightarrow> real" where
  "round53 x =
     (if x = 0 then 0
      else let e = \<lfloor>log 2 \<bar>x\<bar>\<rfloor> - 52
           in real_of_int (rne (x / 2 powr real_of_int e)) * 2 powr real_of_int e)"

definition dadd :: "real \<Rightarrow> real \<Rightarrow> real" where
  "dadd a b = round53 (a + b)"

definition dmul :: "real \<Rightarrow> real \<Rightarrow> real" where
  "dmul a b = round53 (a * b)"

definition ddiv :: "real \<Rightarrow> real \<Rightarrow> real" where
  "ddiv a b = round53 (a / b)"

definition dsqrt :: "real \<Rightarrow> real" where
  "dsqrt a = round53 (sqrt a)"

text \<open>
  \<^verbatim>\<open>Vector3.length()\<close> is the square root of the scalar product of the vector with
  itself. The scalar product starts from 0 and adds the product of each coordinate with
  itself, x first; each product and each sum is rounded on its own.
  \<^verbatim>\<open>Vector3.normalize()\<close> divides each coordinate by the length and raises
  ValueError when the length is 0, and the product of a vector with a number multiplies
  each coordinate by it.
\<close>

definition scalar_product_double :: "Vector3 \<Rightarrow> real" where
  "scalar_product_double v =
     dadd (dadd (dadd 0 (dmul (vx v) (vx v))) (dmul (vy v) (vy v))) (dmul (vz v) (vz v))"

definition length_double :: "Vector3 \<Rightarrow> real" where
  "length_double v = dsqrt (scalar_product_double v)"

definition normalize_double :: "Vector3 \<Rightarrow> error + Vector3" where
  "normalize_double v =
     (if length_double v = 0 then Inl ValueError
      else Inr (Vec (ddiv (vx v) (length_double v)) (ddiv (vy v) (length_double v))
                    (ddiv (vz v) (length_double v))))"

definition scale_double :: "Vector3 \<Rightarrow> real \<Rightarrow> Vector3" where
  "scale_double v k = Vec (dmul (vx v) k) (dmul (vy v) k) (dmul (vz v) k)"

definition clamp_speed_double :: "Vector3 \<Rightarrow> error + Vector3" where
  "clamp_speed_double v =
     (if length_double v > max_speed
      then (case normalize_double v of
              Inl e \<Rightarrow> Inl e
            | Inr n \<Rightarrow> Inr (scale_double n max_speed))
      else Inr v)"



section \<open>aircraft.py: the altitude limits on Python floats\<close>

text \<open>
  Lines 249 to 255 again, for the altitude alone, on the values that a Python float can
  take: a number, an infinity or NaN. A comparison with NaN is false.
\<close>

datatype pyfloat = Finite real | PlusInf | MinusInf | NaN

fun float_less :: "pyfloat \<Rightarrow> pyfloat \<Rightarrow> bool" where
  "float_less NaN y = False"
| "float_less x NaN = False"
| "float_less (Finite a) (Finite b) = (a < b)"
| "float_less (Finite a) PlusInf = True"
| "float_less (Finite a) MinusInf = False"
| "float_less PlusInf y = False"
| "float_less MinusInf MinusInf = False"
| "float_less MinusInf y = True"

definition altitude_limit :: "pyfloat \<Rightarrow> pyfloat" where
  "altitude_limit y0 =
     (let y = (if float_less y0 (Finite 10) then Finite 10 else y0)
      in if float_less (Finite service_ceiling) y then Finite service_ceiling else y)"

section \<open>mission.py\<close>

text \<open>
  The optional arguments of \<^verbatim>\<open>MissionSegment\<close> default to \<^verbatim>\<open>None\<close>; comparing or
  subtracting \<^verbatim>\<open>None\<close> and a float raises TypeError. The attribute \<^verbatim>\<open>turn_time\<close>
  is added to a segment by \<^verbatim>\<open>execute_turn\<close> and deleted by \<^verbatim>\<open>reset\<close>: the field is
  \<open>None\<close> while the attribute is absent.
\<close>

record MissionSegment =
  name :: string
  target_altitude :: "real option"
  target_speed :: "real option"
  duration :: "real option"
  distance :: "real option"
  completed :: bool
  progress :: real
  turn_time :: "real option"

definition MissionSegment_init ::
  "string \<Rightarrow> real option \<Rightarrow> real option \<Rightarrow> real option \<Rightarrow> real option \<Rightarrow> MissionSegment" where
  "MissionSegment_init n alt spd dur dis =
     \<lparr>name = n, target_altitude = alt, target_speed = spd, duration = dur, distance = dis,
      completed = False, progress = 0, turn_time = None\<rparr>"

record ProfileData =
  pd_altitude :: "real list"
  pd_range :: "real list"
  pd_fuel :: "real list"
  pd_segments :: "string list"

text \<open>
  \<^verbatim>\<open>MissionProfile.aircraft\<close> is the driver's aircraft object: the methods below take
  the aircraft and return it with the mission. The cursor starts at 0 and is only ever
  incremented, so it is a natural number.
\<close>

record MissionProfile =
  segments :: "MissionSegment list"
  current_segment_index :: nat
  mission_complete :: bool
  total_fuel_consumed :: real
  total_distance :: real
  total_time :: real
  display_enabled :: bool
  profile_data :: ProfileData

definition create_default_mission :: "MissionSegment list" where
  "create_default_mission =
     [MissionSegment_init ''WUTO'' (Some 100) (Some 80) (Some 60) None,
      MissionSegment_init ''CLIMB'' (Some 5000) (Some 150) None (Some 50000),
      MissionSegment_init ''CRUISE'' (Some 5000) (Some 200) None (Some 200000),
      MissionSegment_init ''TURN'' (Some 5000) (Some 180) (Some 120) None,
      MissionSegment_init ''DESCENT'' (Some 500) (Some 150) None (Some 40000),
      MissionSegment_init ''LANDING'' (Some 0) (Some 70) None (Some 10000)]"

definition empty_profile_data :: ProfileData where
  "empty_profile_data = \<lparr>pd_altitude = [], pd_range = [], pd_fuel = [], pd_segments = []\<rparr>"

definition MissionProfile_init :: MissionProfile where
  "MissionProfile_init =
     \<lparr>segments = create_default_mission, current_segment_index = 0,
      mission_complete = False, total_fuel_consumed = 0, total_distance = 0,
      total_time = 0, display_enabled = True, profile_data = empty_profile_data\<rparr>"

definition execute_wuto ::
  "MissionSegment \<Rightarrow> Aircraft \<Rightarrow> real \<Rightarrow> error + MissionSegment \<times> Aircraft" where
  "execute_wuto seg a dt =
     (if progress seg < 30
      then Inr (seg\<lparr>progress := progress seg + dt\<rparr>, a\<lparr>throttle := 0.3\<rparr>)
      else (case target_altitude seg of
              None \<Rightarrow> Inl TypeError
            | Some target_alt \<Rightarrow>
                Inr (if vy (position a) \<ge> target_alt then seg\<lparr>completed := True\<rparr> else seg,
                     a\<lparr>throttle := 1.0\<rparr>)))"

definition execute_climb ::
  "MissionSegment \<Rightarrow> Aircraft \<Rightarrow> real \<Rightarrow> error + MissionSegment \<times> Aircraft" where
  "execute_climb seg a0 dt =
     (case target_altitude seg of
        None \<Rightarrow> Inl TypeError
      | Some target_alt \<Rightarrow>
          (let current_alt = vy (position a0) in
           if current_alt < target_alt
           then
             (let altitude_error = target_alt - current_alt;
                  desired_pitch = min 0.3 (altitude_error / 1000);
                  pitch_rate = 0.5 * dt;
                  a = (if vx (rotation a0) < desired_pitch
                       then a0\<lparr>rotation := (rotation a0)\<lparr>vx := vx (rotation a0) + pitch_rate\<rparr>\<rparr>
                       else if vx (rotation a0) > desired_pitch
                       then a0\<lparr>rotation := (rotation a0)\<lparr>vx := vx (rotation a0) - pitch_rate\<rparr>\<rparr>
                       else a0);
                  current_speed = vlength (velocity a)
              in case target_speed seg of
                   None \<Rightarrow> Inl TypeError
                 | Some spd \<Rightarrow>
                     Inr (seg,
                          if current_speed < spd
                          then a\<lparr>throttle := min 1.0 (throttle a + dt * 0.5)\<rparr>
                          else a\<lparr>throttle := max 0.5 (throttle a - dt * 0.5)\<rparr>))
           else Inr (seg\<lparr>completed := True\<rparr>,
                     a0\<lparr>rotation := (rotation a0)\<lparr>vx := 0\<rparr>\<rparr>)))"

definition execute_cruise ::
  "MissionSegment \<Rightarrow> Aircraft \<Rightarrow> real \<Rightarrow> error + MissionSegment \<times> Aircraft" where
  "execute_cruise seg a0 dt =
     (case target_altitude seg of
        None \<Rightarrow> Inl TypeError
      | Some target_alt \<Rightarrow>
          (let altitude_error = target_alt - vy (position a0);
               a = a0\<lparr>rotation := (rotation a0)\<lparr>vx := altitude_error * 0.001\<rparr>\<rparr>;
               current_speed = vlength (velocity a)
           in case target_speed seg of
                None \<Rightarrow> Inl TypeError
              | Some spd \<Rightarrow>
                  (let speed_error = spd - current_speed;
                       a = (if \<bar>speed_error\<bar> > 5
                            then a\<lparr>throttle :=
                                     max 0.3 (min 1.0 (throttle a + speed_error * 0.01))\<rparr>
                            else a)
                   in case distance seg of
                        None \<Rightarrow> Inr (seg, a)
                      | Some d \<Rightarrow>
                          if d = 0 then Inr (seg, a)
                          else (let seg' = seg\<lparr>progress := total_range a\<rparr>
                                in Inr (if progress seg' \<ge> d
                                        then seg'\<lparr>completed := True\<rparr> else seg', a)))))"

text \<open>
  In \<^verbatim>\<open>execute_turn\<close> the division by \<^verbatim>\<open>segment.target_speed\<close> raises
  ZeroDivisionError when the target speed is zero.
\<close>

definition execute_turn ::
  "MissionSegment \<Rightarrow> Aircraft \<Rightarrow> real \<Rightarrow> error + MissionSegment \<times> Aircraft" where
  "execute_turn seg0 a0 dt =
     (let bank_angle = pi / 6;
          t = (case turn_time seg0 of None \<Rightarrow> 0 | Some t0 \<Rightarrow> t0) + dt;
          seg = seg0\<lparr>turn_time := Some t\<rparr>
      in case target_altitude seg of
           None \<Rightarrow> Inl TypeError
         | Some target_alt \<Rightarrow>
             (let altitude_error = target_alt - vy (position a0);
                  a = a0\<lparr>rotation := (rotation a0)\<lparr>vx := altitude_error * 0.001,
                                                     vz := bank_angle\<rparr>\<rparr>
              in case target_speed seg of
                   None \<Rightarrow> Inl TypeError
                 | Some spd \<Rightarrow>
                     if spd = 0 then Inl ZeroDivisionError
                     else
                       (let turn_rate = 9.81 * tan bank_angle / spd;
                            a = a\<lparr>rotation :=
                                    (rotation a)\<lparr>vy := vy (rotation a) + turn_rate * dt\<rparr>\<rparr>
                        in case duration seg of
                             None \<Rightarrow> Inl TypeError
                           | Some dur \<Rightarrow>
                               if t \<ge> dur
                               then Inr (seg\<lparr>completed := True\<rparr>,
                                         a\<lparr>rotation := (rotation a)\<lparr>vz := 0\<rparr>\<rparr>)
                               else Inr (seg, a))))"

definition execute_descent ::
  "MissionSegment \<Rightarrow> Aircraft \<Rightarrow> real \<Rightarrow> error + MissionSegment \<times> Aircraft" where
  "execute_descent seg a0 dt =
     (case target_altitude seg of
        None \<Rightarrow> Inl TypeError
      | Some target_alt \<Rightarrow>
          (let current_alt = vy (position a0) in
           if current_alt > target_alt
           then
             (let altitude_error = current_alt - target_alt;
                  desired_pitch = - min 0.2 (altitude_error / 2000);
                  pitch_rate = 0.3 * dt;
                  a = (if vx (rotation a0) > desired_pitch
                       then a0\<lparr>rotation := (rotation a0)\<lparr>vx := vx (rotation a0) - pitch_rate\<rparr>\<rparr>
                       else a0)
              in Inr (seg, a\<lparr>throttle := max 0.2 (throttle a - dt * 0.3)\<rparr>))
           else Inr (seg\<lparr>completed := True\<rparr>,
                     a0\<lparr>rotation := (rotation a0)\<lparr>vx := 0\<rparr>\<rparr>)))"

definition execute_landing ::
  "MissionSegment \<Rightarrow> Aircraft \<Rightarrow> real \<Rightarrow> error + MissionSegment \<times> Aircraft" where
  "execute_landing seg a0 dt =
     (let current_speed = vlength (velocity a0) in
      case target_speed seg of
        None \<Rightarrow> Inl TypeError
      | Some spd \<Rightarrow>
          (let a = (if current_speed > spd
                    then a0\<lparr>throttle := max 0.1 (throttle a0 - dt * 0.5)\<rparr>
                    else a0)
           in if vy (position a) > 10
              then Inr (seg, a\<lparr>rotation := (rotation a)\<lparr>vx := - 0.1\<rparr>\<rparr>)
              else Inr (seg\<lparr>completed := True\<rparr>,
                        a\<lparr>throttle := 0, velocity := Vec 0 0 0\<rparr>)))"

definition execute_segment ::
  "MissionSegment \<Rightarrow> Aircraft \<Rightarrow> real \<Rightarrow> error + MissionSegment \<times> Aircraft" where
  "execute_segment seg a0 dt =
     (let a = a0\<lparr>mission_data := (mission_data a0)\<lparr>md_phase := name seg\<rparr>\<rparr> in
      if name seg = ''WUTO'' then execute_wuto seg a dt
      else if name seg = ''CLIMB'' then execute_climb seg a dt
      else if name seg = ''CRUISE'' then execute_cruise seg a dt
      else if name seg = ''TURN'' then execute_turn seg a dt
      else if name seg = ''DESCENT'' then execute_descent seg a dt
      else if name seg = ''LANDING'' then execute_landing seg a dt
      else Inr (seg, a))"

definition record_profile_data :: "MissionProfile \<Rightarrow> Aircraft \<Rightarrow> MissionProfile" where
  "record_profile_data m a =
     (let d = profile_data m in
      if py_int (total_time m) > int (length (pd_altitude d))
      then m\<lparr>profile_data :=
               d\<lparr>pd_altitude := pd_altitude d @ [vy (position a)],
                 pd_range := pd_range d @ [total_range a],
                 pd_fuel := pd_fuel d @ [fuel_mass a],
                 pd_segments := pd_segments d @
                   [if current_segment_index m < length (segments m)
                    then name (segments m ! current_segment_index m)
                    else ''COMPLETE'']\<rparr>\<rparr>
      else m)"

text \<open>
  \<^verbatim>\<open>MissionProfile.update\<close>. The current segment is an object of the list, so what
  \<^verbatim>\<open>execute_segment\<close> changes in it is written back at its index.
\<close>

definition MissionProfile_update ::
  "MissionProfile \<Rightarrow> Aircraft \<Rightarrow> real \<Rightarrow> error + MissionProfile \<times> Aircraft" where
  "MissionProfile_update m0 a0 dt =
     (if mission_complete m0 \<or> current_segment_index m0 \<ge> length (segments m0)
      then Inr (m0, a0)
      else
        (case execute_segment (segments m0 ! current_segment_index m0) a0 dt of
           Inl e \<Rightarrow> Inl e
         | Inr (seg, a) \<Rightarrow>
             (let m = m0\<lparr>segments := (segments m0)[current_segment_index m0 := seg]\<rparr>;
                  m = m\<lparr>total_time := total_time m + dt\<rparr>;
                  m = m\<lparr>total_distance := total_range a\<rparr>;
                  m = record_profile_data m a
              in if completed seg
                 then
                   (let m = m\<lparr>current_segment_index := current_segment_index m + 1\<rparr> in
                    if current_segment_index m \<ge> length (segments m)
                    then Inr (m\<lparr>mission_complete := True\<rparr>,
                              a\<lparr>mission_data := (mission_data a)\<lparr>md_phase := ''COMPLETE''\<rparr>\<rparr>)
                    else Inr (m, a))
                 else Inr (m, a))))"

definition toggle_display :: "MissionProfile \<Rightarrow> MissionProfile" where
  "toggle_display m = m\<lparr>display_enabled := \<not> display_enabled m\<rparr>"

text \<open>The body of the loop over the segments in \<^verbatim>\<open>MissionProfile.reset\<close>.\<close>

definition reset_segment :: "MissionSegment \<Rightarrow> MissionSegment" where
  "reset_segment seg = seg\<lparr>completed := False, progress := 0, turn_time := None\<rparr>"

definition MissionProfile_reset :: "MissionProfile \<Rightarrow> MissionProfile" where
  "MissionProfile_reset m =
     m\<lparr>current_segment_index := 0, mission_complete := False,
       total_fuel_consumed := 0, total_distance := 0, total_time := 0,
       segments := map reset_segment (segments m),
       profile_data := empty_profile_data\<rparr>"

section \<open>world.py: the queries of the collision check\<close>

text \<open>
  The world is generated at random when the program starts and its geometry is never
  changed afterwards: the height map, the buildings and the mountains are the fields of
  a world that the theorems quantify over. Trees, clouds and everything that only draws
  are left out. Two classes have attributes \<^verbatim>\<open>position\<close> and \<^verbatim>\<open>height\<close>, so the
  fields carry the initial of their class.
\<close>

record Building =
  b_position :: Vector3
  b_width :: real
  b_height :: real
  b_depth :: real

record Mountain =
  m_position :: Vector3
  m_radius :: real
  m_height :: real

record World =
  height_map :: "nat \<Rightarrow> nat \<Rightarrow> real"
  buildings :: "Building list"
  mountains :: "Mountain list"

definition terrain_size :: int where "terrain_size = 100"
definition terrain_scale :: real where "terrain_scale = 50"

definition get_terrain_height :: "World \<Rightarrow> real \<Rightarrow> real \<Rightarrow> real" where
  "get_terrain_height w x z =
     (let grid_x = py_int (x / terrain_scale + real_of_int terrain_size / 2);
          grid_z = py_int (z / terrain_scale + real_of_int terrain_size / 2);
          base_height =
            (if 0 \<le> grid_x \<and> grid_x < terrain_size \<and> 0 \<le> grid_z \<and> grid_z < terrain_size
             then height_map w (nat grid_x) (nat grid_z)
             else 0)
      in fold (\<lambda>mountain base.
                 let dist = sqrt ((x - vx (m_position mountain))\<^sup>2
                                  + (z - vz (m_position mountain))\<^sup>2)
                 in if dist < m_radius mountain
                    then max base (m_height mountain * (1 - dist / m_radius mountain))
                    else base)
              (mountains w) base_height)"

definition check_building_collision :: "Vector3 \<Rightarrow> Building \<Rightarrow> real" where
  "check_building_collision aircraft_pos building =
     (let min_x = vx (b_position building) - b_width building / 2;
          max_x = vx (b_position building) + b_width building / 2;
          min_z = vz (b_position building) - b_depth building / 2;
          max_z = vz (b_position building) + b_depth building / 2;
          min_y = 0;
          max_y = b_height building;
          dx = max (max (min_x - vx aircraft_pos) 0) (vx aircraft_pos - max_x);
          dy = max (max (min_y - vy aircraft_pos) 0) (vy aircraft_pos - max_y);
          dz = max (max (min_z - vz aircraft_pos) 0) (vz aircraft_pos - max_z)
      in sqrt (dx * dx + dy * dy + dz * dz))"

text \<open>
  \<^verbatim>\<open>min_building_distance\<close> starts at \<^verbatim>\<open>float('inf')\<close>, which is \<open>None\<close> here: it is
  smaller than no threshold.
\<close>

definition min_building_distance :: "World \<Rightarrow> Vector3 \<Rightarrow> real option" where
  "min_building_distance w pos =
     fold (\<lambda>building m.
             let d = check_building_collision pos building
             in case m of None \<Rightarrow> Some d | Some r \<Rightarrow> Some (min r d))
          (buildings w) None"

definition inf_less :: "real option \<Rightarrow> real \<Rightarrow> bool" where
  "inf_less d c = (case d of None \<Rightarrow> False | Some r \<Rightarrow> r < c)"

definition inf_le :: "real option \<Rightarrow> real \<Rightarrow> bool" where
  "inf_le d c = (case d of None \<Rightarrow> False | Some r \<Rightarrow> r \<le> c)"

section \<open>main.py: the driver\<close>

text \<open>
  Of the camera only the mode is kept: its position is read by the renderer alone.
  main.py does not import \<^verbatim>\<open>math\<close>, so \<^verbatim>\<open>update_camera\<close> raises NameError in the
  orbit mode, where it calls \<^verbatim>\<open>math.sin\<close>.
\<close>

datatype camera_mode = third_person | chase | orbit | free

datatype event = QUIT | KEYDOWN key | OTHER_EVENT

record FlightSimulator =
  aircraft :: Aircraft
  world :: World
  mission :: MissionProfile
  camera_mode :: camera_mode
  detailed_view :: bool
  running :: bool
  paused :: bool
  crashed :: bool
  warning_timer :: real
  collision_warning :: bool
  debug_mode :: bool

definition FlightSimulator_init :: "World \<Rightarrow> FlightSimulator" where
  "FlightSimulator_init w =
     \<lparr>aircraft = Aircraft_default, world = w, mission = MissionProfile_init,
      camera_mode = third_person, detailed_view = False, running = True, paused = False,
      crashed = False, warning_timer = 0, collision_warning = False, debug_mode = True\<rparr>"

definition reset_simulation :: "FlightSimulator \<Rightarrow> FlightSimulator" where
  "reset_simulation s =
     s\<lparr>aircraft := Aircraft_reset (aircraft s), mission := MissionProfile_reset (mission s),
       crashed := False, warning_timer := 0, collision_warning := False\<rparr>"

definition altitude_agl :: "FlightSimulator \<Rightarrow> real" where
  "altitude_agl s =
     vy (position (aircraft s))
     - get_terrain_height (world s) (vx (position (aircraft s))) (vz (position (aircraft s)))"

definition check_collisions :: "FlightSimulator \<Rightarrow> real \<Rightarrow> FlightSimulator" where
  "check_collisions s dt =
     (let agl = altitude_agl s;
          mbd = min_building_distance (world s) (position (aircraft s));
          warning_threshold = 100;
          critical_threshold = 30
      in if agl < critical_threshold \<or> inf_less mbd critical_threshold
         then
           (let s1 = s\<lparr>collision_warning := True, warning_timer := warning_timer s + dt\<rparr>
            in if agl \<le> 5 \<or> inf_le mbd 10
               then s1\<lparr>crashed := True, aircraft := (aircraft s1)\<lparr>velocity := Vec 0 0 0\<rparr>\<rparr>
               else s1)
         else if agl < warning_threshold \<or> inf_less mbd warning_threshold
         then s\<lparr>collision_warning := True, warning_timer := warning_timer s + dt\<rparr>
         else s\<lparr>collision_warning := False, warning_timer := 0\<rparr>)"

definition cycle_camera_mode :: "FlightSimulator \<Rightarrow> FlightSimulator" where
  "cycle_camera_mode s =
     s\<lparr>camera_mode := (case camera_mode s of
                         third_person \<Rightarrow> chase | chase \<Rightarrow> orbit
                       | orbit \<Rightarrow> free | free \<Rightarrow> third_person)\<rparr>"

definition update_camera :: "FlightSimulator \<Rightarrow> error + FlightSimulator" where
  "update_camera s = (if camera_mode s = orbit then Inl NameError else Inr s)"

definition handle_event :: "FlightSimulator \<Rightarrow> event \<Rightarrow> FlightSimulator" where
  "handle_event s ev =
     (case ev of
        QUIT \<Rightarrow> s\<lparr>running := False\<rparr>
      | OTHER_EVENT \<Rightarrow> s
      | KEYDOWN k \<Rightarrow>
          if k = K_ESCAPE then s\<lparr>running := False\<rparr>
          else if k = K_p then s\<lparr>paused := \<not> paused s\<rparr>
          else if k = K_r \<and> crashed s then reset_simulation s
          else if k = K_m then s\<lparr>mission := toggle_display (mission s)\<rparr>
          else if k = K_d then s\<lparr>debug_mode := \<not> debug_mode s\<rparr>
          else if k = K_c then cycle_camera_mode s
          else if k = K_TAB then s\<lparr>detailed_view := \<not> detailed_view s\<rparr>
          else s)"

definition handle_events :: "FlightSimulator \<Rightarrow> event list \<Rightarrow> FlightSimulator" where
  "handle_events s evs = fold (\<lambda>ev t. handle_event t ev) evs s"

text \<open>
  \<^verbatim>\<open>FlightSimulator.update\<close>. \<^verbatim>\<open>World.update\<close> moves the clouds only, which this
  model leaves out.
\<close>

definition FlightSimulator_update :: "FlightSimulator \<Rightarrow> real \<Rightarrow> (key \<Rightarrow> bool) \<Rightarrow> error + FlightSimulator" where
  "FlightSimulator_update s dt keys =
     (if paused s \<or> crashed s then Inr s
      else
        (case Aircraft_update (aircraft s) dt keys of
           Inl e \<Rightarrow> Inl e
         | Inr a \<Rightarrow>
             (case MissionProfile_update (mission s) a dt of
                Inl e \<Rightarrow> Inl e
              | Inr (m, a') \<Rightarrow>
                  update_camera (check_collisions (s\<lparr>aircraft := a', mission := m\<rparr>) dt))))"

text \<open>
  One iteration of the loop of \<^verbatim>\<open>run\<close>: the pending events, then \<^verbatim>\<open>update\<close> with the
  frame's time step and key state (rendering changes nothing here). The loop ends when
  \<^verbatim>\<open>running\<close> is false at the top of an iteration.
\<close>

type_synonym frame = "event list \<times> real \<times> (key \<Rightarrow> bool)"

definition tick :: "FlightSimulator \<Rightarrow> frame \<Rightarrow> error + FlightSimulator" where
  "tick s fr = (case fr of (evs, dt, keys) \<Rightarrow> FlightSimulator_update (handle_events s evs) dt keys)"

fun run :: "FlightSimulator \<Rightarrow> frame list \<Rightarrow> error + FlightSimulator" where
  "run s [] = Inr s"
| "run s (fr # frs) =
     (if \<not> running s then Inr s
      else case tick s fr of Inl e \<Rightarrow> Inl e | Inr s' \<Rightarrow> run s' frs)"

section \<open>Sequences of calls\<close>

text \<open>
  The altitudes at which the air density can be computed: \<^verbatim>\<open>math.exp\<close> does not
  overflow. Every altitude from 0 up is one, and so is every altitude that
  \<^verbatim>\<open>Aircraft.update\<close> leaves.
\<close>

definition density_defined :: "Aircraft \<Rightarrow> bool" where
  "density_defined a = (exp (- vy (position a) / 8000) \<le> double_max)"

text \<open>
  A sequence of calls of \<^verbatim>\<open>Aircraft.update\<close>, each with its time step and key state;
  the first exception ends it.
\<close>

fun update_sequence :: "Aircraft \<Rightarrow> (real \<times> (key \<Rightarrow> bool)) list \<Rightarrow> error + Aircraft" where
  "update_sequence a [] = Inr a"
| "update_sequence a (x # xs) =
     (case Aircraft_update a (fst x) (snd x) of
        Inl e \<Rightarrow> Inl e
      | Inr b \<Rightarrow> update_sequence b xs)"

text \<open>
  A sequence of calls of \<^verbatim>\<open>MissionProfile.update\<close>. Between two calls the rest of the
  program changes the aircraft, so every call comes with its time step and with the
  aircraft as it is at that call.
\<close>

fun mission_sequence :: "MissionProfile \<Rightarrow> (real \<times> Aircraft) list \<Rightarrow> error + MissionProfile" where
  "mission_sequence m [] = Inr m"
| "mission_sequence m (x # xs) =
     (case MissionProfile_update m (snd x) (fst x) of
        Inl e \<Rightarrow> Inl e
      | Inr r \<Rightarrow> mission_sequence (fst r) xs)"

text \<open>
  The default mission in its fixed order, and the shape that a mission has after
  \<^verbatim>\<open>__init__\<close> or \<^verbatim>\<open>reset\<close> and keeps from then on: the segments are the six named
  ones, the cursor is within the list, and the completed segments are exactly those
  before the cursor.
\<close>

definition segment_names :: "string list" where
  "segment_names = [''WUTO'', ''CLIMB'', ''CRUISE'', ''TURN'', ''DESCENT'', ''LANDING'']"

definition completed_prefix :: "MissionProfile \<Rightarrow> bool" where
  "completed_prefix m =
     (map completed (segments m)
      = map (\<lambda>i. i < current_segment_index m) [0..<length (segments m)])"

definition mission_wf :: "MissionProfile \<Rightarrow> bool" where
  "mission_wf m =
     (map name (segments m) = segment_names
      \<and> current_segment_index m \<le> length (segments m)
      \<and> completed_prefix m)"

section \<open>The thrust formula as the specification words it\<close>

text \<open>
  The specification describes the altitude factor as \<open>1 - altitude/20000\<close> floored at
  0.5, and the speed factor as \<open>1 - speed/1000\<close>, zero beyond 1000 m/s. These three
  definitions follow those words, for comparison with \<open>get_thrust\<close>.
\<close>

definition spec_altitude_factor :: "real \<Rightarrow> real" where
  "spec_altitude_factor alt = max 0.5 (1 - alt / 20000)"

definition spec_speed_factor :: "real \<Rightarrow> real" where
  "spec_speed_factor v = (if v < 1000 then 1 - v / 1000 else 0)"

definition spec_thrust :: "Aircraft \<Rightarrow> real" where
  "spec_thrust a =
     max_thrust a * throttle a * spec_altitude_factor (vy (position a))
       * spec_speed_factor (vlength (velocity a))"

section \<open>Concrete inputs\<close>

definition no_keys :: "key \<Rightarrow> bool" where
  "no_keys k = False"

definition shift_keys :: "key \<Rightarrow> bool" where
  "shift_keys k = (k = K_LSHIFT)"

text \<open>The default aircraft at its service ceiling, and with an empty tank.\<close>

definition aircraft_at_ceiling :: Aircraft where
  "aircraft_at_ceiling = Aircraft_default\<lparr>position := Vec 0 12000 0\<rparr>"

definition empty_tank :: Aircraft where
  "empty_tank = Aircraft_default\<lparr>fuel_mass := 0\<rparr>"



text \<open>
  Calls of \<^verbatim>\<open>MissionProfile.update\<close> with a time step of 20 s: one, two and three
  calls with the default aircraft, which flies at 500 m, and one call with the aircraft
  at 6000 m.
\<close>

definition first_call :: "(real \<times> Aircraft) list" where
  "first_call = [(20, Aircraft_default)]"

definition warm_up_calls :: "(real \<times> Aircraft) list" where
  "warm_up_calls = [(20, Aircraft_default), (20, Aircraft_default)]"

definition take_off_calls :: "(real \<times> Aircraft) list" where
  "take_off_calls = [(20, Aircraft_default), (20, Aircraft_default), (20, Aircraft_default)]"

definition climbed_call :: "(real \<times> Aircraft) list" where
  "climbed_call = [(20, Aircraft_default\<lparr>position := Vec 0 6000 0\<rparr>)]"

text \<open>
  Worlds and driver states: level ground at a given height with nothing on it; level
  ground at height 0 with one building of 490 m under the start position; a new driver
  whose start position (0, 500, 0) is a given clearance above level ground; and a
  crashed driver over ground 3 m below the aircraft.
\<close>

definition level_world :: "real \<Rightarrow> World" where
  "level_world h = \<lparr>height_map = (\<lambda>i j. h), buildings = [], mountains = []\<rparr>"



definition sim_at :: "real \<Rightarrow> FlightSimulator" where
  "sim_at clearance = FlightSimulator_init (level_world (500 - clearance))"

definition crashed_sim :: FlightSimulator where
  "crashed_sim =
     (sim_at 3)\<lparr>collision_warning := True, warning_timer := 1/60, crashed := True,
                aircraft := Aircraft_default\<lparr>velocity := Vec 0 0 0\<rparr>\<rparr>"

definition frames_without_restart :: "frame list" where
  "frames_without_restart =
     [([KEYDOWN K_p, KEYDOWN K_m], 1/60, no_keys), ([KEYDOWN K_p], 1/60, shift_keys)]"


text \<open>
  The timer law as the specification words it, for a tick from \<open>s\<close> to \<open>s'\<close>: the timer
  is zero when the warning is off and has grown by \<open>dt\<close> when it is on.
\<close>

definition spec_timer_law :: "FlightSimulator \<Rightarrow> real \<Rightarrow> FlightSimulator \<Rightarrow> bool" where
  "spec_timer_law s dt s' =
     (if collision_warning s' then warning_timer s' = warning_timer s + dt
      else warning_timer s' = 0)"

text \<open>
  A frame of 1/60 s with no event and no key held, and level ground at 20000 m, above
  the service ceiling.
\<close>

definition quiet_frame :: frame where
  "quiet_frame = ([], 1/60, no_keys)"

definition mesa :: World where
  "mesa = level_world 20000"


text \<open>
  The five values that \<^verbatim>\<open>Aircraft.__init__\<close> takes from the configuration.
\<close>

definition config :: "Aircraft \<Rightarrow> real \<times> real \<times> real \<times> real \<times> real" where
  "config a = (mass a, wing_area a, max_thrust a, fuel_capacity a, fuel_flow_rate a)"


section \<open>Vectors and the flight envelope\<close>

lemma vlength_initial: "vlength (Vec 0 0 100) = 100"
proof -
  have "sqrt (100 * 100) = \<bar>100::real\<bar>" by (rule real_sqrt_abs2)
  then show ?thesis by (simp add: vlength_def Vec_def)
qed

lemma Vec_sel: "vx (Vec a b c) = a" "vy (Vec a b c) = b" "vz (Vec a b c) = c"
  by (simp_all add: Vec_def)

lemma Aircraft_default_simps:
  "position Aircraft_default = Vec 0 500 0"
  "velocity Aircraft_default = Vec 0 0 100"
  "rotation Aircraft_default = Vec 0 0 0"
  "mass Aircraft_default = 50000"
  "fuel_capacity Aircraft_default = 15000"
  "fuel_flow_rate Aircraft_default = 2"
  "max_thrust Aircraft_default = 200000"
  "wing_area Aircraft_default = 150"
  "fuel_mass Aircraft_default = 12000"
  "throttle Aircraft_default = 0.5"
  "total_range Aircraft_default = 0"
  "mission_time Aircraft_default = 0"
  "mission_data Aircraft_default = empty_mission_data"
  by (simp_all add: Aircraft_default_def Aircraft_init_def)

text \<open>
  In exact arithmetic the velocity that the speed limit renormalises has the length
  \<open>max_speed\<close>. The length in double precision is bounded further down.
\<close>

lemma vlength_normalize_scaled:
  assumes "normalize v = Inr n"
  shows "vlength (vscale n k) = \<bar>k\<bar>"
proof -
  let ?l = "vlength v"
  from assms have l0: "?l \<noteq> 0" and n: "n = Vec (vx v / ?l) (vy v / ?l) (vz v / ?l)"
    by (auto simp: normalize_def split: if_splits)
  have sq: "?l * ?l = vx v * vx v + vy v * vy v + vz v * vz v"
    by (simp add: vlength_def)
  have "(vx v / ?l * k) * (vx v / ?l * k) + (vy v / ?l * k) * (vy v / ?l * k)
          + (vz v / ?l * k) * (vz v / ?l * k)
        = (vx v * vx v + vy v * vy v + vz v * vz v) / (?l * ?l) * (k * k)"
    by (simp add: field_simps add_divide_distrib)
  also have "\<dots> = k * k"
  proof -
    have "?l * ?l \<noteq> 0" using l0 by simp
    then show ?thesis unfolding sq[symmetric] by simp
  qed
  finally have "vlength (vscale n k) = sqrt (k * k)"
    by (simp add: n vscale_def vlength_def Vec_def)
  then show ?thesis by simp
qed

lemma clamp_speed_le:
  assumes "clamp_speed v = Inr w"
  shows "vlength w \<le> max_speed"
proof (cases "vlength v > max_speed")
  case True
  with assms obtain n where n: "normalize v = Inr n" and w: "w = vscale n max_speed"
    by (auto simp: clamp_speed_def split: sum.splits)
  show ?thesis using vlength_normalize_scaled[OF n, of max_speed] w
    by (simp add: max_speed_def)
next
  case False
  with assms show ?thesis by (auto simp: clamp_speed_def)
qed

lemma clamp_speed_total: "\<exists>w. clamp_speed v = Inr w"
  by (auto simp: clamp_speed_def normalize_def max_speed_def)

lemma vlength_drop_vy: "vlength (v\<lparr>vy := 0\<rparr>) \<le> vlength v"
  by (simp add: vlength_def)

lemma clamp_altitude_position:
  "10 \<le> vy (position (clamp_altitude a)) \<and> vy (position (clamp_altitude a)) \<le> service_ceiling"
  by (simp add: clamp_altitude_def Let_def service_ceiling_def)

lemma clamp_altitude_velocity:
  "vlength (velocity (clamp_altitude a)) \<le> vlength (velocity a)"
  by (simp add: clamp_altitude_def Let_def vlength_drop_vy)

lemma update_physics_bounds:
  assumes "update_physics a dt = Inr b"
  shows "10 \<le> vy (position b) \<and> vy (position b) \<le> service_ceiling
         \<and> vlength (velocity b) \<le> max_speed"
proof -
  from assms obtain acc v where
    v: "clamp_speed (vadd (velocity a) (vscale acc dt)) = Inr v" and
    b: "b = clamp_altitude (a\<lparr>velocity := v, position := vadd (position a) (vscale v dt)\<rparr>)"
    by (auto simp: update_physics_def split: sum.splits)
  have "vlength (velocity b) \<le> vlength v"
    using clamp_altitude_velocity[of "a\<lparr>velocity := v, position := vadd (position a) (vscale v dt)\<rparr>"]
    by (simp add: b)
  with clamp_speed_le[OF v] show ?thesis
    using clamp_altitude_position by (simp add: b)
qed

lemma update_fuel_kinematics:
  "position (snd (update_fuel a dt)) = position a"
  "velocity (snd (update_fuel a dt)) = velocity a"
  by (simp_all add: update_fuel_def)

lemma update_mission_data_kinematics:
  "position (update_mission_data a dt) = position a"
  "velocity (update_mission_data a dt) = velocity a"
  by (simp_all add: update_mission_data_def Let_def)

lemma double_max_ge_1: "1 \<le> double_max"
proof -
  have "(1::real) \<le> 2 - 1 / 2 ^ 52" by simp
  moreover have "(1::real) \<le> 2 ^ 1023" by (rule one_le_power) simp
  ultimately have "(1::real) * 1 \<le> (2 - 1 / 2 ^ 52) * 2 ^ 1023"
    by (rule mult_mono) simp_all
  then show ?thesis by (simp add: double_max_def)
qed

lemma density_defined_nonneg: "0 \<le> vy (position a) \<Longrightarrow> density_defined a"
proof -
  assume "0 \<le> vy (position a)"
  then have "exp (- vy (position a) / 8000) \<le> 1" by simp
  from order_trans[OF this double_max_ge_1] show ?thesis by (simp add: density_defined_def)
qed

lemma rho_defined:
  "density_defined a \<Longrightarrow> rho a = Inr (1.225 * exp (- vy (position a) / 8000))"
  by (simp add: rho_def py_exp_def density_defined_def)

lemma rho_overflow: "\<not> density_defined a \<Longrightarrow> rho a = Inl OverflowError"
  by (simp add: rho_def py_exp_def density_defined_def)

lemma get_lift_defined:
  assumes "density_defined a"
  shows "\<exists>l. get_lift a alpha = Inr l"
proof (cases "vlength (velocity a) < 0.1")
  case True
  then have "get_lift a alpha = Inr 0"
    by (simp add: get_lift_def rho_defined[OF assms] Let_def)
  then show ?thesis ..
next
  case False
  then have "get_lift a alpha =
      Inr (0.5 * (1.225 * exp (- vy (position a) / 8000)) * vlength (velocity a)
             * vlength (velocity a) * wing_area a
             * max (-1.5) (min 1.5 (CL0 + CL_alpha * alpha)))"
    by (simp add: get_lift_def rho_defined[OF assms] Let_def)
  then show ?thesis ..
qed

lemma get_drag_defined:
  assumes "density_defined a"
  shows "\<exists>d. get_drag a alpha = Inr d"
proof (cases "vlength (velocity a) < 0.1")
  case True
  then have "get_drag a alpha = Inr 0"
    by (simp add: get_drag_def rho_defined[OF assms] Let_def)
  then show ?thesis ..
next
  case False
  then have "get_drag a alpha =
      Inr (0.5 * (1.225 * exp (- vy (position a) / 8000)) * vlength (velocity a)
             * vlength (velocity a) * wing_area a
             * (CD0 + K_induced * (CL0 + CL_alpha * alpha) * (CL0 + CL_alpha * alpha)))"
    by (simp add: get_drag_def rho_defined[OF assms] Let_def)
  then show ?thesis ..
qed

lemma acceleration_total:
  assumes "get_total_mass a \<noteq> 0" "density_defined a"
  shows "\<exists>acc. acceleration a = Inr acc"
proof -
  let ?alpha = "if vlength (velocity a) > 0.1 then vx (rotation a) else 0"
  from get_lift_defined[OF assms(2), of ?alpha] obtain l where
    l: "get_lift a ?alpha = Inr l" by blast
  from get_drag_defined[OF assms(2), of ?alpha] obtain d where
    d: "get_drag a ?alpha = Inr d" by blast
  show ?thesis
    using assms(1) l d
    by (auto simp: acceleration_def Let_def normalize_def split: sum.splits)
qed

lemma update_physics_total:
  assumes "get_total_mass a \<noteq> 0" "density_defined a"
  shows "\<exists>b. update_physics a dt = Inr b"
proof -
  from acceleration_total[OF assms] obtain acc where "acceleration a = Inr acc" by blast
  moreover from clamp_speed_total obtain w where
    "clamp_speed (vadd (velocity a) (vscale acc dt)) = Inr w" by blast
  ultimately show ?thesis by (simp add: update_physics_def)
qed

lemma update_physics_overflow:
  "\<not> density_defined a \<Longrightarrow> update_physics a dt = Inl OverflowError"
  by (simp add: update_physics_def acceleration_def get_lift_def rho_overflow Let_def)

lemma update_physics_error:
  assumes "get_total_mass a = 0" "density_defined a"
  shows "update_physics a dt = Inl ZeroDivisionError"
proof -
  let ?alpha = "if vlength (velocity a) > 0.1 then vx (rotation a) else 0"
  from get_lift_defined[OF assms(2), of ?alpha] obtain l where
    l: "get_lift a ?alpha = Inr l" by blast
  from get_drag_defined[OF assms(2), of ?alpha] obtain d where
    d: "get_drag a ?alpha = Inr d" by blast
  show ?thesis
    using assms(1) l d by (simp add: update_physics_def acceleration_def Let_def)
qed

subsection \<open>What the control inputs leave alone\<close>

lemma fuel_check_fixed:
  "position (fuel_check a) = position a"
  "velocity (fuel_check a) = velocity a"
  "mass (fuel_check a) = mass a"
  "fuel_mass (fuel_check a) = fuel_mass a"
  "fuel_flow_rate (fuel_check a) = fuel_flow_rate a"
  "fuel_capacity (fuel_check a) = fuel_capacity a"
  "wing_area (fuel_check a) = wing_area a"
  "max_thrust (fuel_check a) = max_thrust a"
  by (simp_all add: fuel_check_def)

lemma pitch_control_fixed:
  "position (pitch_control a dt keys) = position a"
  "velocity (pitch_control a dt keys) = velocity a"
  "mass (pitch_control a dt keys) = mass a"
  "fuel_mass (pitch_control a dt keys) = fuel_mass a"
  "fuel_flow_rate (pitch_control a dt keys) = fuel_flow_rate a"
  "fuel_capacity (pitch_control a dt keys) = fuel_capacity a"
  "wing_area (pitch_control a dt keys) = wing_area a"
  "max_thrust (pitch_control a dt keys) = max_thrust a"
  "throttle (pitch_control a dt keys) = throttle a"
  by (simp_all add: pitch_control_def Let_def)

lemma roll_control_fixed:
  "position (roll_control a dt keys) = position a"
  "velocity (roll_control a dt keys) = velocity a"
  "mass (roll_control a dt keys) = mass a"
  "fuel_mass (roll_control a dt keys) = fuel_mass a"
  "fuel_flow_rate (roll_control a dt keys) = fuel_flow_rate a"
  "fuel_capacity (roll_control a dt keys) = fuel_capacity a"
  "wing_area (roll_control a dt keys) = wing_area a"
  "max_thrust (roll_control a dt keys) = max_thrust a"
  "throttle (roll_control a dt keys) = throttle a"
  by (simp_all add: roll_control_def Let_def)

lemma yaw_control_fixed:
  "position (yaw_control a dt keys) = position a"
  "velocity (yaw_control a dt keys) = velocity a"
  "mass (yaw_control a dt keys) = mass a"
  "fuel_mass (yaw_control a dt keys) = fuel_mass a"
  "fuel_flow_rate (yaw_control a dt keys) = fuel_flow_rate a"
  "fuel_capacity (yaw_control a dt keys) = fuel_capacity a"
  "wing_area (yaw_control a dt keys) = wing_area a"
  "max_thrust (yaw_control a dt keys) = max_thrust a"
  "throttle (yaw_control a dt keys) = throttle a"
  by (simp_all add: yaw_control_def Let_def)

lemma throttle_control_fixed:
  "position (throttle_control a dt keys) = position a"
  "velocity (throttle_control a dt keys) = velocity a"
  "mass (throttle_control a dt keys) = mass a"
  "fuel_mass (throttle_control a dt keys) = fuel_mass a"
  "fuel_flow_rate (throttle_control a dt keys) = fuel_flow_rate a"
  "fuel_capacity (throttle_control a dt keys) = fuel_capacity a"
  "wing_area (throttle_control a dt keys) = wing_area a"
  "max_thrust (throttle_control a dt keys) = max_thrust a"
  by (simp_all add: throttle_control_def Let_def)

lemma auto_level_fixed:
  "position (auto_level a keys) = position a"
  "velocity (auto_level a keys) = velocity a"
  "mass (auto_level a keys) = mass a"
  "fuel_mass (auto_level a keys) = fuel_mass a"
  "fuel_flow_rate (auto_level a keys) = fuel_flow_rate a"
  "fuel_capacity (auto_level a keys) = fuel_capacity a"
  "wing_area (auto_level a keys) = wing_area a"
  "max_thrust (auto_level a keys) = max_thrust a"
  "throttle (auto_level a keys) = throttle a"
  by (simp_all add: auto_level_def)

lemmas controls_fixed =
  fuel_check_fixed pitch_control_fixed roll_control_fixed yaw_control_fixed
  throttle_control_fixed auto_level_fixed

lemma update_controls_fixed:
  "position (update_controls a dt keys) = position a"
  "velocity (update_controls a dt keys) = velocity a"
  "mass (update_controls a dt keys) = mass a"
  "fuel_mass (update_controls a dt keys) = fuel_mass a"
  "fuel_flow_rate (update_controls a dt keys) = fuel_flow_rate a"
  "fuel_capacity (update_controls a dt keys) = fuel_capacity a"
  "wing_area (update_controls a dt keys) = wing_area a"
  "max_thrust (update_controls a dt keys) = max_thrust a"
  by (simp_all add: update_controls_def controls_fixed)

lemma update_controls_throttle:
  "throttle (update_controls a dt keys) =
     throttle (throttle_control (fuel_check a) dt keys)"
  by (simp add: update_controls_def auto_level_fixed throttle_control_def Let_def
      yaw_control_fixed roll_control_fixed pitch_control_fixed)

lemma update_controls_throttle_nonneg:
  "0 \<le> throttle a \<Longrightarrow> 0 \<le> dt \<Longrightarrow> 0 \<le> throttle (update_controls a dt keys)"
  by (simp add: update_controls_throttle throttle_control_def fuel_check_def Let_def)

lemma clamp_altitude_fixed:
  "mass (clamp_altitude a) = mass a"
  "fuel_mass (clamp_altitude a) = fuel_mass a"
  "fuel_flow_rate (clamp_altitude a) = fuel_flow_rate a"
  "fuel_capacity (clamp_altitude a) = fuel_capacity a"
  "wing_area (clamp_altitude a) = wing_area a"
  "max_thrust (clamp_altitude a) = max_thrust a"
  "throttle (clamp_altitude a) = throttle a"
  by (simp_all add: clamp_altitude_def Let_def)

lemma update_physics_fixed:
  assumes "update_physics a dt = Inr b"
  shows "mass b = mass a" "fuel_mass b = fuel_mass a" "fuel_flow_rate b = fuel_flow_rate a"
    "fuel_capacity b = fuel_capacity a" "wing_area b = wing_area a"
    "max_thrust b = max_thrust a" "throttle b = throttle a"
  using assms by (auto simp: update_physics_def clamp_altitude_fixed split: sum.splits)

lemma Aircraft_update_Inr:
  assumes "Aircraft_update a dt keys = Inr c"
  obtains b where "update_physics (update_controls a dt keys) dt = Inr b"
    and "c = update_mission_data (snd (update_fuel b dt)) dt"
  using assms by (auto simp: Aircraft_update_def split: sum.splits)

lemma update_mission_data_fixed:
  "mass (update_mission_data a dt) = mass a"
  "fuel_mass (update_mission_data a dt) = fuel_mass a"
  "fuel_flow_rate (update_mission_data a dt) = fuel_flow_rate a"
  "fuel_capacity (update_mission_data a dt) = fuel_capacity a"
  "wing_area (update_mission_data a dt) = wing_area a"
  "max_thrust (update_mission_data a dt) = max_thrust a"
  "throttle (update_mission_data a dt) = throttle a"
  by (simp_all add: update_mission_data_def Let_def)

lemma update_fuel_fixed:
  "mass (snd (update_fuel a dt)) = mass a"
  "fuel_flow_rate (snd (update_fuel a dt)) = fuel_flow_rate a"
  "fuel_capacity (snd (update_fuel a dt)) = fuel_capacity a"
  "wing_area (snd (update_fuel a dt)) = wing_area a"
  "max_thrust (snd (update_fuel a dt)) = max_thrust a"
  "throttle (snd (update_fuel a dt)) = throttle a"
  "fuel_mass (snd (update_fuel a dt)) = max 0 (fuel_mass a - fuel_consumption a dt)"
  by (simp_all add: update_fuel_def)

lemma update_controls_density:
  "density_defined (update_controls a dt keys) = density_defined a"
  by (simp add: density_defined_def update_controls_fixed)

lemma Aircraft_update_total:
  assumes "get_total_mass a \<noteq> 0" "density_defined a"
  shows "\<exists>c. Aircraft_update a dt keys = Inr c"
proof -
  have "get_total_mass (update_controls a dt keys) \<noteq> 0"
    using assms(1) by (simp add: get_total_mass_def update_controls_fixed)
  from update_physics_total[OF this] assms(2) obtain b
    where "update_physics (update_controls a dt keys) dt = Inr b"
    by (auto simp: update_controls_density)
  then show ?thesis by (simp add: Aircraft_update_def)
qed

lemma Aircraft_update_error:
  assumes "get_total_mass a = 0" "density_defined a"
  shows "Aircraft_update a dt keys = Inl ZeroDivisionError"
proof -
  have "get_total_mass (update_controls a dt keys) = 0"
    using assms(1) by (simp add: get_total_mass_def update_controls_fixed)
  from update_physics_error[OF this] assms(2) show ?thesis
    by (simp add: Aircraft_update_def update_controls_density)
qed

lemma Aircraft_update_overflow:
  "\<not> density_defined a \<Longrightarrow> Aircraft_update a dt keys = Inl OverflowError"
  using update_physics_overflow[of "update_controls a dt keys" dt]
  by (simp add: Aircraft_update_def update_controls_density)

lemma Aircraft_update_bounds:
  assumes "Aircraft_update a dt keys = Inr c"
  shows "10 \<le> vy (position c)" "vy (position c) \<le> service_ceiling"
    "vlength (velocity c) \<le> max_speed"
proof -
  from assms obtain b where p: "update_physics (update_controls a dt keys) dt = Inr b"
    and c: "c = update_mission_data (snd (update_fuel b dt)) dt"
    by (rule Aircraft_update_Inr)
  have "position c = position b" "velocity c = velocity b"
    by (simp_all add: c update_mission_data_kinematics update_fuel_kinematics)
  with update_physics_bounds[OF p]
  show "10 \<le> vy (position c)" "vy (position c) \<le> service_ceiling"
    "vlength (velocity c) \<le> max_speed"
    by simp_all
qed

lemma Aircraft_default_density: "density_defined Aircraft_default"
  by (rule density_defined_nonneg) (simp add: Aircraft_default_simps Vec_sel)

lemma Aircraft_update_mass:
  assumes "Aircraft_update a dt keys = Inr c"
  shows "mass c = mass a" "0 \<le> fuel_mass c"
proof -
  from assms obtain b where p: "update_physics (update_controls a dt keys) dt = Inr b"
    and c: "c = update_mission_data (snd (update_fuel b dt)) dt"
    by (rule Aircraft_update_Inr)
  show "mass c = mass a" "0 \<le> fuel_mass c"
    using update_physics_fixed[OF p]
    by (simp_all add: c update_mission_data_fixed update_fuel_fixed update_controls_fixed)
qed


subsection \<open>Rounding to 53 bits\<close>






lemma pow2_powr: "(2::real) ^ m = 2 powr real_of_int (int m)"
  by (simp add: powr_realpow)





















subsection \<open>The speed limit in double precision\<close>

text \<open>
  Whatever the velocity, the vector that the speed limit leaves has a length of at most
  \<open>max_speed * (1 + 1 / 2 ^ 49)\<close>, both as \<^verbatim>\<open>length()\<close> computes it and exactly, and
  so has that vector with its y coordinate set to zero.
\<close>

lemma vlength_nonneg: "0 \<le> vlength v"
  by (simp add: vlength_def)







lemma clamp_speed_double_total:
  "\<exists>c. clamp_speed_double w = Inr c"
  by (auto simp: clamp_speed_double_def normalize_double_def max_speed_def)

subsection \<open>The speed limit at the velocity (0, 0.25, 300)\<close>






















subsection \<open>The altitude limits and the velocity that an update leaves\<close>




lemma altitude_limit_nan: "altitude_limit NaN = NaN"
  by (simp add: altitude_limit_def)















section \<open>Thrust\<close>

text \<open>
  Claim C6, as stated, fails: at the service ceiling of 12000 m the altitude factor of
  the code is 0.4, below the floor of 0.5 that the claim gives it, so the default
  aircraft there has 36000 N of thrust where the claimed formula gives 45000 N.
\<close>

theorem thrust_floor_counterexample:
  "vy (position aircraft_at_ceiling) = 12000
   \<and> get_thrust aircraft_at_ceiling = 36000
   \<and> spec_thrust aircraft_at_ceiling = 45000
   \<and> get_thrust aircraft_at_ceiling \<noteq> spec_thrust aircraft_at_ceiling"
  by (simp add: get_thrust_def spec_thrust_def spec_altitude_factor_def spec_speed_factor_def
      aircraft_at_ceiling_def Aircraft_default_simps Vec_sel vlength_initial Let_def)


text \<open>
  Claim C6, amended. The thrust is \<open>max_thrust * throttle * altitude_factor *
  speed_factor\<close>, where the altitude factor is \<open>1 - altitude/20000\<close> at every altitude
  below 20000 m and 0.5 from 20000 m on, and the speed factor is \<open>1 - speed/1000\<close> below
  1000 m/s and 0 from there on. The code agrees with the floored formula at altitudes up
  to 10000 m and from 20000 m on; between 10000 m and 20000 m its altitude factor is
  below 0.5.
\<close>

theorem thrust_formula:
  "get_thrust a =
     max_thrust a * throttle a
       * (if vy (position a) < 20000 then 1 - vy (position a) / 20000 else 0.5)
       * spec_speed_factor (vlength (velocity a))
   \<and> (vy (position a) \<le> 10000 \<or> 20000 \<le> vy (position a) \<longrightarrow> get_thrust a = spec_thrust a)
   \<and> (10000 < vy (position a) \<and> vy (position a) < 20000 \<longrightarrow>
        (if vy (position a) < 20000 then 1 - vy (position a) / 20000 else 0.5) < 0.5)"
  by (auto simp: get_thrust_def spec_thrust_def spec_altitude_factor_def spec_speed_factor_def
      Let_def max_def)

theorem thrust_formula_witness:
  "(vy (position Aircraft_default) \<le> 10000 \<or> 20000 \<le> vy (position Aircraft_default))
   \<and> get_thrust Aircraft_default = spec_thrust Aircraft_default
   \<and> get_thrust Aircraft_default = 87750
   \<and> 10000 < vy (position aircraft_at_ceiling) \<and> vy (position aircraft_at_ceiling) < 20000
   \<and> get_thrust aircraft_at_ceiling = 200000 * 0.5 * 0.4 * 0.9"
  using thrust_formula[of Aircraft_default] thrust_formula[of aircraft_at_ceiling]
  by (simp add: aircraft_at_ceiling_def Aircraft_default_simps Vec_sel vlength_initial
      spec_speed_factor_def)


section \<open>Fuel\<close>

lemma fuel_consumption_nonneg:
  assumes "0 \<le> fuel_flow_rate a" "0 \<le> throttle a" "0 \<le> dt"
  shows "0 \<le> fuel_consumption a dt"
proof -
  have "0 \<le> (if vy (position a) < 15000 then 1 - vy (position a) / 30000 else 0.5)"
    by simp
  with assms show ?thesis
    unfolding fuel_consumption_def by (intro mult_nonneg_nonneg) auto
qed

lemma Aircraft_update_fuel_step:
  assumes u: "Aircraft_update a dt keys = Inr c"
    and "0 \<le> fuel_mass a" "0 \<le> throttle a" "0 \<le> fuel_flow_rate a" "0 \<le> dt"
  shows "fuel_mass c \<le> fuel_mass a" "0 \<le> fuel_mass c" "0 \<le> throttle c"
    "fuel_flow_rate c = fuel_flow_rate a"
proof -
  from u obtain b where p: "update_physics (update_controls a dt keys) dt = Inr b"
    and c: "c = update_mission_data (snd (update_fuel b dt)) dt"
    by (rule Aircraft_update_Inr)
  have tb: "0 \<le> throttle b" and fb: "fuel_mass b = fuel_mass a"
    and rb: "fuel_flow_rate b = fuel_flow_rate a"
    using update_physics_fixed[OF p] update_controls_throttle_nonneg[of a dt keys] assms
    by (simp_all add: update_controls_fixed)
  have "0 \<le> fuel_consumption b dt"
    using fuel_consumption_nonneg[of b dt] tb rb assms by simp
  then show "fuel_mass c \<le> fuel_mass a" "0 \<le> fuel_mass c" "0 \<le> throttle c"
    "fuel_flow_rate c = fuel_flow_rate a"
    using assms tb fb rb by (simp_all add: c update_mission_data_fixed update_fuel_fixed)
qed

lemma update_sequence_fuel:
  assumes "update_sequence a xs = Inr b"
    and "0 \<le> fuel_mass a" "0 \<le> throttle a" "0 \<le> fuel_flow_rate a"
    and "\<forall>x\<in>set xs. 0 \<le> fst x"
  shows "fuel_mass b \<le> fuel_mass a \<and> 0 \<le> fuel_mass b \<and> 0 \<le> throttle b
         \<and> 0 \<le> fuel_flow_rate b"
  using assms
proof (induction xs arbitrary: a)
  case Nil
  then show ?case by simp
next
  case (Cons x xs)
  from Cons.prems(1) obtain c where c: "Aircraft_update a (fst x) (snd x) = Inr c"
    and r: "update_sequence c xs = Inr b"
    by (auto split: sum.splits)
  have dt: "0 \<le> fst x" using Cons.prems(5) by simp
  note st = Aircraft_update_fuel_step[OF c Cons.prems(2,3,4) dt]
  have "fuel_mass b \<le> fuel_mass c \<and> 0 \<le> fuel_mass b \<and> 0 \<le> throttle b
         \<and> 0 \<le> fuel_flow_rate b"
    using Cons.IH[OF r] st Cons.prems by simp
  with st show ?case by simp
qed

lemma update_sequence_total:
  assumes "0 < mass a" "0 \<le> fuel_mass a" "0 \<le> vy (position a)"
  shows "\<exists>b. update_sequence a xs = Inr b \<and> mass b = mass a \<and> 0 \<le> fuel_mass b
    \<and> 0 \<le> vy (position b)"
  using assms
proof (induction xs arbitrary: a)
  case Nil
  then show ?case by simp
next
  case (Cons x xs)
  have "get_total_mass a \<noteq> 0" using Cons.prems by (simp add: get_total_mass_def)
  from Aircraft_update_total[OF this density_defined_nonneg[OF Cons.prems(3)]] obtain c
    where c: "Aircraft_update a (fst x) (snd x) = Inr c" by blast
  have "0 \<le> vy (position c)" using Aircraft_update_bounds(1)[OF c] by simp
  with Aircraft_update_mass[OF c] Cons.prems Cons.IH[of c] c show ?case by simp
qed

text \<open>
  Claim C4. Along every sequence of \<^verbatim>\<open>Aircraft.update\<close> calls with time steps \<open>dt \<ge> 0\<close>,
  started with a non-negative fuel mass, throttle and fuel flow rate, the fuel mass
  never increases from one point of the sequence to a later one and is never negative.
\<close>

theorem fuel_non_increasing:
  assumes "0 \<le> fuel_mass a" "0 \<le> throttle a" "0 \<le> fuel_flow_rate a"
    and "\<forall>x\<in>set (xs @ ys). 0 \<le> fst x"
    and "update_sequence a xs = Inr b" "update_sequence b ys = Inr c"
  shows "fuel_mass c \<le> fuel_mass b \<and> fuel_mass b \<le> fuel_mass a
         \<and> 0 \<le> fuel_mass b \<and> 0 \<le> fuel_mass c"
proof -
  have x: "\<forall>x\<in>set xs. 0 \<le> fst x" and y: "\<forall>x\<in>set ys. 0 \<le> fst x"
    using assms(4) by auto
  from update_sequence_fuel[OF assms(5) assms(1,2,3) x]
  have b: "fuel_mass b \<le> fuel_mass a" "0 \<le> fuel_mass b" "0 \<le> throttle b"
    "0 \<le> fuel_flow_rate b" by auto
  from update_sequence_fuel[OF assms(6) b(2,3,4) y] b show ?thesis by simp
qed

theorem fuel_non_increasing_witness:
  "\<exists>b c. update_sequence Aircraft_default [(1/60, no_keys)] = Inr b
     \<and> update_sequence b [(1/60, shift_keys)] = Inr c
     \<and> fuel_mass c \<le> fuel_mass b \<and> fuel_mass b \<le> fuel_mass Aircraft_default
     \<and> 0 \<le> fuel_mass b \<and> 0 \<le> fuel_mass c"
proof -
  have d: "0 < mass Aircraft_default" "0 \<le> fuel_mass Aircraft_default"
    "0 \<le> throttle Aircraft_default" "0 \<le> fuel_flow_rate Aircraft_default"
    by (simp_all add: Aircraft_default_simps)
  have y: "0 \<le> vy (position Aircraft_default)" by (simp add: Aircraft_default_simps Vec_sel)
  from update_sequence_total[OF d(1,2) y, of "[(1/60, no_keys)]"] obtain b where
    b: "update_sequence Aircraft_default [(1/60, no_keys)] = Inr b"
    "mass b = mass Aircraft_default" "0 \<le> fuel_mass b" "0 \<le> vy (position b)" by blast
  from update_sequence_total[of b "[(1/60, shift_keys)]"] b d obtain c where
    c: "update_sequence b [(1/60, shift_keys)] = Inr c" by auto
  have nn: "\<forall>x\<in>set ([(1/60, no_keys)] @ [(1/60, shift_keys)]). (0::real) \<le> fst x"
    by simp
  from fuel_non_increasing[OF d(2,3,4) nn b(1) c] b(1) c show ?thesis by blast
qed


text \<open>
  Claim C7. The fuel check sets the throttle to 0 first, but the throttle key is read
  after it: with an empty tank and the throttle-up key held, the physics integration of
  that call runs with throttle \<open>dt\<close> and a thrust that is not zero. Here the default
  aircraft with no fuel, at 1/60 s: throttle 1/60 and 2925 N of thrust.
\<close>

theorem fuel_exhausted_throttle_up:
  "fuel_mass empty_tank \<le> 0
   \<and> throttle (update_controls empty_tank (1/60) shift_keys) = 1/60
   \<and> get_thrust (update_controls empty_tank (1/60) shift_keys) = 2925"
  by (simp add: get_thrust_def update_controls_fixed update_controls_throttle
      throttle_control_def fuel_check_def shift_keys_def empty_tank_def
      Aircraft_default_simps Vec_sel vlength_initial Let_def)


text \<open>Without the throttle-up key the throttle and the thrust of that call are zero.\<close>

lemma fuel_exhausted_no_throttle_up:
  assumes "fuel_mass a \<le> 0" "0 \<le> dt" "\<not> keys K_LSHIFT"
  shows "throttle (update_controls a dt keys) = 0 \<and> get_thrust (update_controls a dt keys) = 0"
  using assms
  by (simp add: get_thrust_def update_controls_throttle throttle_control_def fuel_check_def Let_def)


section \<open>The mission cursor\<close>

lemma execute_wuto_static:
  "execute_wuto seg a dt = Inr (seg', a') \<Longrightarrow>
     reset_segment seg' = reset_segment seg \<and> (completed seg \<longrightarrow> completed seg')"
  by (auto simp: execute_wuto_def reset_segment_def split: if_splits option.splits)

lemma execute_climb_static:
  "execute_climb seg a dt = Inr (seg', a') \<Longrightarrow>
     reset_segment seg' = reset_segment seg \<and> (completed seg \<longrightarrow> completed seg')"
  by (auto simp: execute_climb_def reset_segment_def Let_def split: if_splits option.splits)

lemma execute_cruise_static:
  "execute_cruise seg a dt = Inr (seg', a') \<Longrightarrow>
     reset_segment seg' = reset_segment seg \<and> (completed seg \<longrightarrow> completed seg')"
  by (auto simp: execute_cruise_def reset_segment_def Let_def split: if_splits option.splits)

lemma execute_turn_static:
  "execute_turn seg a dt = Inr (seg', a') \<Longrightarrow>
     reset_segment seg' = reset_segment seg \<and> (completed seg \<longrightarrow> completed seg')"
  by (auto simp: execute_turn_def reset_segment_def Let_def split: if_splits option.splits)

lemma execute_descent_static:
  "execute_descent seg a dt = Inr (seg', a') \<Longrightarrow>
     reset_segment seg' = reset_segment seg \<and> (completed seg \<longrightarrow> completed seg')"
  by (auto simp: execute_descent_def reset_segment_def Let_def split: if_splits option.splits)

lemma execute_landing_static:
  "execute_landing seg a dt = Inr (seg', a') \<Longrightarrow>
     reset_segment seg' = reset_segment seg \<and> (completed seg \<longrightarrow> completed seg')"
  by (auto simp: execute_landing_def reset_segment_def Let_def split: if_splits option.splits)

lemma execute_segment_static:
  assumes "execute_segment seg a dt = Inr (seg', a')"
  shows "reset_segment seg' = reset_segment seg \<and> (completed seg \<longrightarrow> completed seg')"
  using assms execute_wuto_static execute_climb_static execute_cruise_static
    execute_turn_static execute_descent_static execute_landing_static
  unfolding execute_segment_def Let_def
  by (auto split: if_splits)

lemma record_profile_data_fixed:
  "segments (record_profile_data m a) = segments m"
  "current_segment_index (record_profile_data m a) = current_segment_index m"
  "mission_complete (record_profile_data m a) = mission_complete m"
  "display_enabled (record_profile_data m a) = display_enabled m"
  by (simp_all add: record_profile_data_def Let_def)

lemma MissionProfile_update_idle:
  "mission_complete m \<or> current_segment_index m \<ge> length (segments m) \<Longrightarrow>
     MissionProfile_update m a dt = Inr (m, a)"
  by (simp add: MissionProfile_update_def)

lemma MissionProfile_update_active:
  assumes "MissionProfile_update m a dt = Inr (m', a')"
    and "\<not> mission_complete m" "current_segment_index m < length (segments m)"
  obtains seg a1 where
    "execute_segment (segments m ! current_segment_index m) a dt = Inr (seg, a1)"
    "segments m' = (segments m)[current_segment_index m := seg]"
    "current_segment_index m' =
       (if completed seg then current_segment_index m + 1 else current_segment_index m)"
    "display_enabled m' = display_enabled m"
proof -
  from assms obtain seg a1 where
    e: "execute_segment (segments m ! current_segment_index m) a dt = Inr (seg, a1)"
    by (auto simp: MissionProfile_update_def split: sum.splits)
  have "segments m' = (segments m)[current_segment_index m := seg]"
    "current_segment_index m' =
       (if completed seg then current_segment_index m + 1 else current_segment_index m)"
    "display_enabled m' = display_enabled m"
    using assms e
    by (auto simp: MissionProfile_update_def Let_def record_profile_data_fixed
        split: if_splits)
  with e that show ?thesis by blast
qed

lemma completed_prefix_iff:
  "completed_prefix m \<longleftrightarrow>
     (\<forall>i<length (segments m). completed (segments m ! i) \<longleftrightarrow> i < current_segment_index m)"
  unfolding completed_prefix_def
proof
  assume eq: "map completed (segments m)
      = map (\<lambda>i. i < current_segment_index m) [0..<length (segments m)]"
  show "\<forall>i<length (segments m). completed (segments m ! i) \<longleftrightarrow> i < current_segment_index m"
  proof (intro allI impI)
    fix i assume i: "i < length (segments m)"
    have "completed (segments m ! i) = map completed (segments m) ! i" using i by simp
    also have "\<dots> = map (\<lambda>i. i < current_segment_index m) [0..<length (segments m)] ! i"
      by (simp only: eq)
    also have "\<dots> = (i < current_segment_index m)" using i by simp
    finally show "completed (segments m ! i) \<longleftrightarrow> i < current_segment_index m" .
  qed
next
  assume "\<forall>i<length (segments m). completed (segments m ! i) \<longleftrightarrow> i < current_segment_index m"
  then show "map completed (segments m)
      = map (\<lambda>i. i < current_segment_index m) [0..<length (segments m)]"
    by (intro nth_equalityI) simp_all
qed

lemma MissionProfile_update_step:
  assumes u: "MissionProfile_update m a dt = Inr (m', a')"
  shows "length (segments m') = length (segments m)
    \<and> map reset_segment (segments m') = map reset_segment (segments m)
    \<and> current_segment_index m \<le> current_segment_index m'
    \<and> (current_segment_index m \<le> length (segments m) \<longrightarrow>
           current_segment_index m' \<le> length (segments m'))
    \<and> (\<forall>i<length (segments m). completed (segments m ! i) \<longrightarrow> completed (segments m' ! i))
    \<and> (completed_prefix m \<longrightarrow> completed_prefix m')"
proof (cases "mission_complete m \<or> current_segment_index m \<ge> length (segments m)")
  case True
  then have "m' = m" using u MissionProfile_update_idle[of m a dt] by auto
  then show ?thesis by simp
next
  case False
  let ?k = "current_segment_index m"
  from False have nc: "\<not> mission_complete m" and lt: "?k < length (segments m)" by auto
  from MissionProfile_update_active[OF u nc lt] obtain seg a1 where
    e: "execute_segment (segments m ! ?k) a dt = Inr (seg, a1)" and
    sg: "segments m' = (segments m)[?k := seg]" and
    ix: "current_segment_index m' = (if completed seg then ?k + 1 else ?k)"
    by blast
  note st = execute_segment_static[OF e]
  have len: "length (segments m') = length (segments m)" by (simp add: sg)
  have rs: "map reset_segment (segments m') = map reset_segment (segments m)"
    using st lt by (simp add: sg map_update list_update_same_conv)
  have mono: "current_segment_index m \<le> current_segment_index m'" by (simp add: ix)
  have bound: "current_segment_index m' \<le> length (segments m')"
    using lt by (simp add: ix len)
  have keep: "completed (segments m' ! i)"
    if "i < length (segments m)" "completed (segments m ! i)" for i
    using that st by (cases "i = ?k") (simp_all add: sg)
  have pre: "completed_prefix m'" if cp: "completed_prefix m"
    unfolding completed_prefix_iff
  proof (intro allI impI)
    fix i assume i: "i < length (segments m')"
    from cp have p: "\<And>j. j < length (segments m) \<Longrightarrow>
        completed (segments m ! j) \<longleftrightarrow> j < ?k"
      by (simp add: completed_prefix_iff)
    show "completed (segments m' ! i) \<longleftrightarrow> i < current_segment_index m'"
    proof (cases "i = ?k")
      case True
      then show ?thesis using lt by (simp add: sg ix)
    next
      case False
      then have "segments m' ! i = segments m ! i" by (simp add: sg)
      with False p[of i] i show ?thesis by (auto simp: ix len)
    qed
  qed
  from len rs mono bound keep pre show ?thesis by blast
qed

lemma MissionProfile_update_wf:
  assumes "MissionProfile_update m a dt = Inr (m', a')" "mission_wf m"
  shows "mission_wf m'"
proof -
  note st = MissionProfile_update_step[OF assms(1)]
  have "map name (segments m') = map name (segments m)"
  proof -
    have "map name (segments m') = map name (map reset_segment (segments m'))"
      by (simp add: reset_segment_def comp_def)
    also have "\<dots> = map name (map reset_segment (segments m))" using st by simp
    also have "\<dots> = map name (segments m)" by (simp add: reset_segment_def comp_def)
    finally show ?thesis .
  qed
  with st assms(2) show ?thesis by (simp add: mission_wf_def)
qed

lemma mission_sequence_inv:
  assumes "mission_sequence m xs = Inr m'" "mission_wf m"
  shows "mission_wf m' \<and> current_segment_index m \<le> current_segment_index m'
         \<and> length (segments m') = length (segments m)
         \<and> (\<forall>i<length (segments m). completed (segments m ! i) \<longrightarrow> completed (segments m' ! i))"
  using assms
proof (induction xs arbitrary: m)
  case Nil
  then show ?case by simp
next
  case (Cons x xs)
  from Cons.prems(1) obtain m1 a1 where
    u: "MissionProfile_update m (snd x) (fst x) = Inr (m1, a1)" and
    r: "mission_sequence m1 xs = Inr m'"
    by (auto split: sum.splits)
  note st = MissionProfile_update_step[OF u]
  have wf1: "mission_wf m1" by (rule MissionProfile_update_wf[OF u Cons.prems(2)])
  from Cons.IH[OF r wf1] st show ?case by auto
qed

lemma mission_wf_init: "mission_wf MissionProfile_init"
  by (simp add: mission_wf_def completed_prefix_def MissionProfile_init_def
      create_default_mission_def MissionSegment_init_def segment_names_def upt_rec)



lemma mission_wf_length: "mission_wf m \<Longrightarrow> length (segments m) = 6"
proof -
  assume "mission_wf m"
  then have "map name (segments m) = segment_names" by (simp add: mission_wf_def)
  then have "length (map name (segments m)) = length segment_names" by simp
  then show ?thesis by (simp add: segment_names_def)
qed

lemma mission_wf_name0: "mission_wf m \<Longrightarrow> name (segments m ! 0) = ''WUTO''"
proof -
  assume w: "mission_wf m"
  then have n: "map name (segments m) = segment_names" by (simp add: mission_wf_def)
  have "name (segments m ! 0) = map name (segments m) ! 0"
    using mission_wf_length[OF w] by simp
  also have "\<dots> = ''WUTO''" by (simp only: n) (simp add: segment_names_def)
  finally show ?thesis .
qed

lemma MissionProfile_init_simps:
  "segments MissionProfile_init = create_default_mission"
  "current_segment_index MissionProfile_init = 0"
  "mission_complete MissionProfile_init = False"
  by (simp_all add: MissionProfile_init_def)

lemmas mission_eval =
  MissionProfile_update_def MissionProfile_init_def create_default_mission_def
  MissionSegment_init_def execute_segment_def execute_wuto_def execute_climb_def Let_def
  record_profile_data_def empty_profile_data_def Aircraft_default_simps Vec_sel
  vlength_initial py_int_def

lemma first_call_sequence:
  "\<exists>m1 m2 a2. mission_sequence MissionProfile_init first_call = Inr m1
      \<and> MissionProfile_update m1 Aircraft_default 20 = Inr (m2, a2)
      \<and> \<not> mission_complete m1 \<and> current_segment_index m1 = 0
      \<and> progress (segments m1 ! 0) = 20"
  by (simp add: first_call_def mission_eval)

lemma warm_up_sequence:
  "\<exists>m1 m2 a2. mission_sequence MissionProfile_init warm_up_calls = Inr m1
      \<and> MissionProfile_update m1 Aircraft_default 20 = Inr (m2, a2)
      \<and> progress (segments m1 ! 0) = 40"
  by (simp add: warm_up_calls_def mission_eval)

lemma take_off_sequence:
  "\<exists>m1 m2. mission_sequence MissionProfile_init take_off_calls = Inr m1
      \<and> mission_sequence m1 climbed_call = Inr m2
      \<and> current_segment_index m1 = 1 \<and> current_segment_index m2 = 2"
  by (simp add: take_off_calls_def climbed_call_def mission_eval)

text \<open>
  Claim C5. Along every sequence of \<^verbatim>\<open>MissionProfile.update\<close> calls that starts after
  \<^verbatim>\<open>__init__\<close> or \<^verbatim>\<open>reset\<close>, the cursor never decreases and never exceeds
  the six segments; a completed flag that is set stays set; and at every point the
  completed segments are exactly those before the cursor, in the fixed order WUTO, CLIMB,
  CRUISE, TURN, DESCENT, LANDING. So each flag goes from false to true at most once, and
  the flags are set in that order.
\<close>

theorem mission_cursor_monotone:
  assumes "mission_wf m"
    and "mission_sequence m xs = Inr m1" "mission_sequence m1 ys = Inr m2"
  shows "current_segment_index m1 \<le> current_segment_index m2
       \<and> current_segment_index m2 \<le> 6
       \<and> map name (segments m2) = segment_names
       \<and> (\<forall>i<6. completed (segments m1 ! i) \<longrightarrow> completed (segments m2 ! i))
       \<and> (\<forall>i<6. completed (segments m2 ! i) \<longleftrightarrow> i < current_segment_index m2)"
proof -
  from mission_sequence_inv[OF assms(2) assms(1)] have w1: "mission_wf m1" by simp
  from mission_sequence_inv[OF assms(3) w1] have
    w2: "mission_wf m2" and mono: "current_segment_index m1 \<le> current_segment_index m2"
    and keep: "\<forall>i<length (segments m1). completed (segments m1 ! i) \<longrightarrow> completed (segments m2 ! i)"
    by simp_all
  have l1: "length (segments m1) = 6" and l2: "length (segments m2) = 6"
    using mission_wf_length w1 w2 by simp_all
  from w2 have "current_segment_index m2 \<le> 6" "map name (segments m2) = segment_names"
    "\<forall>i<6. completed (segments m2 ! i) \<longleftrightarrow> i < current_segment_index m2"
    using l2 by (simp_all add: mission_wf_def completed_prefix_iff)
  with mono keep l1 show ?thesis by simp
qed

theorem mission_cursor_monotone_witness:
  "\<exists>m1 m2. mission_sequence MissionProfile_init take_off_calls = Inr m1
      \<and> mission_sequence m1 climbed_call = Inr m2
      \<and> current_segment_index m1 = 1 \<and> current_segment_index m2 = 2
      \<and> current_segment_index m1 \<le> current_segment_index m2
      \<and> current_segment_index m2 \<le> 6
      \<and> map name (segments m2) = segment_names
      \<and> completed (segments m1 ! 0)
      \<and> completed (segments m2 ! 0) \<and> completed (segments m2 ! 1)
      \<and> \<not> completed (segments m2 ! 2)"
proof -
  from take_off_sequence obtain m1 m2 where
    s: "mission_sequence MissionProfile_init take_off_calls = Inr m1"
       "mission_sequence m1 climbed_call = Inr m2"
       "current_segment_index m1 = 1" "current_segment_index m2 = 2"
    by blast
  have w1: "mission_wf m1" using mission_sequence_inv[OF s(1) mission_wf_init] by simp
  have c1: "completed (segments m1 ! 0)"
    using w1 s(3) mission_wf_length[OF w1] by (simp add: mission_wf_def completed_prefix_iff)
  from mission_cursor_monotone[OF mission_wf_init s(1) s(2)] s(4) c1
  have "current_segment_index m1 \<le> current_segment_index m2
      \<and> current_segment_index m2 \<le> 6
      \<and> map name (segments m2) = segment_names
      \<and> completed (segments m2 ! 0) \<and> completed (segments m2 ! 1)
      \<and> \<not> completed (segments m2 ! 2)"
    by simp
  with s c1 show ?thesis by blast
qed

section \<open>The warm-up timer\<close>

lemma execute_wuto_progress:
  "execute_wuto seg a dt = Inr (seg', a') \<Longrightarrow>
     progress seg' = (if progress seg < 30 then progress seg + dt else progress seg)"
  by (auto simp: execute_wuto_def split: if_splits option.splits)

lemma wuto_progress_step:
  assumes w: "mission_wf m" and u: "MissionProfile_update m a dt = Inr (m', a')"
  shows "progress (segments m' ! 0) =
     (if \<not> mission_complete m \<and> current_segment_index m = 0 \<and> progress (segments m ! 0) < 30
      then progress (segments m ! 0) + dt else progress (segments m ! 0))"
proof (cases "mission_complete m \<or> current_segment_index m \<ge> length (segments m)")
  case True
  then have "m' = m" using u MissionProfile_update_idle[of m a dt] by auto
  with True mission_wf_length[OF w] show ?thesis by auto
next
  case False
  let ?k = "current_segment_index m"
  from False have nc: "\<not> mission_complete m" and lt: "?k < length (segments m)" by auto
  from MissionProfile_update_active[OF u nc lt] obtain seg a1 where
    e: "execute_segment (segments m ! ?k) a dt = Inr (seg, a1)" and
    sg: "segments m' = (segments m)[?k := seg]"
    by blast
  show ?thesis
  proof (cases "?k = 0")
    case True
    with e mission_wf_name0[OF w]
    have "execute_wuto (segments m ! 0)
            (a\<lparr>mission_data := (mission_data a)\<lparr>md_phase := name (segments m ! 0)\<rparr>\<rparr>) dt
          = Inr (seg, a1)"
      by (simp add: execute_segment_def Let_def)
    from execute_wuto_progress[OF this] True lt nc show ?thesis by (simp add: sg)
  next
    case False
    then show ?thesis by (simp add: sg)
  qed
qed

lemma mission_sequence_wuto_bound:
  assumes "mission_wf m" "progress (segments m ! 0) \<le> 30 + D"
    and "\<forall>x\<in>set xs. fst x \<le> D" "mission_sequence m xs = Inr m'"
  shows "progress (segments m' ! 0) \<le> 30 + D \<and> mission_wf m'"
  using assms
proof (induction xs arbitrary: m)
  case Nil
  then show ?case by simp
next
  case (Cons x xs)
  from Cons.prems(4) obtain m1 a1 where
    u: "MissionProfile_update m (snd x) (fst x) = Inr (m1, a1)" and
    r: "mission_sequence m1 xs = Inr m'"
    by (auto split: sum.splits)
  have wf1: "mission_wf m1" by (rule MissionProfile_update_wf[OF u Cons.prems(1)])
  have "fst x \<le> D" using Cons.prems(3) by simp
  with wuto_progress_step[OF Cons.prems(1) u] Cons.prems(2)
  have b1: "progress (segments m1 ! 0) \<le> 30 + D" by (simp split: if_splits)
  from Cons.IH[OF wf1 b1 _ r] Cons.prems(3) show ?case by simp
qed


text \<open>
  Claim C10. A call of \<^verbatim>\<open>MissionProfile.update\<close> adds \<open>dt\<close> to the progress of WUTO
  exactly when WUTO is the current segment and its progress is below 30, and leaves it
  unchanged otherwise; so along every sequence of calls whose time steps are at most
  \<open>D\<close>, the progress of WUTO never exceeds \<open>30 + D\<close>.
\<close>

theorem wuto_progress_bounded:
  assumes "mission_wf m" "progress (segments m ! 0) \<le> 30 + D"
    and "\<forall>x\<in>set xs. fst x \<le> D" "mission_sequence m xs = Inr m1"
    and "MissionProfile_update m1 a dt = Inr (m2, a2)"
  shows "progress (segments m1 ! 0) \<le> 30 + D
       \<and> progress (segments m2 ! 0) =
           (if \<not> mission_complete m1 \<and> current_segment_index m1 = 0
               \<and> progress (segments m1 ! 0) < 30
            then progress (segments m1 ! 0) + dt else progress (segments m1 ! 0))"
  using mission_sequence_wuto_bound[OF assms(1,2,3,4)] wuto_progress_step[OF _ assms(5)]
  by simp

theorem wuto_progress_bounded_witness:
  "\<exists>m1 m2 a2 n1 n2 b2.
      mission_sequence MissionProfile_init first_call = Inr m1
      \<and> MissionProfile_update m1 Aircraft_default 20 = Inr (m2, a2)
      \<and> progress (segments m1 ! 0) = 20
      \<and> progress (segments m2 ! 0) = progress (segments m1 ! 0) + 20
      \<and> mission_sequence MissionProfile_init warm_up_calls = Inr n1
      \<and> MissionProfile_update n1 Aircraft_default 20 = Inr (n2, b2)
      \<and> progress (segments n1 ! 0) = 40
      \<and> progress (segments n1 ! 0) \<le> 30 + 20
      \<and> progress (segments n2 ! 0) = progress (segments n1 ! 0)"
proof -
  from first_call_sequence obtain m1 m2 a2 where
    f: "mission_sequence MissionProfile_init first_call = Inr m1"
       "MissionProfile_update m1 Aircraft_default 20 = Inr (m2, a2)"
       "\<not> mission_complete m1" "current_segment_index m1 = 0"
       "progress (segments m1 ! 0) = 20"
    by blast
  from warm_up_sequence obtain n1 n2 b2 where
    s: "mission_sequence MissionProfile_init warm_up_calls = Inr n1"
       "MissionProfile_update n1 Aircraft_default 20 = Inr (n2, b2)"
       "progress (segments n1 ! 0) = 40"
    by blast
  have p0: "progress (segments MissionProfile_init ! 0) \<le> 30 + 20"
    by (simp add: MissionProfile_init_def create_default_mission_def MissionSegment_init_def)
  have d: "\<forall>x\<in>set warm_up_calls. fst x \<le> 20" "\<forall>x\<in>set first_call. fst x \<le> 20"
    by (simp_all add: warm_up_calls_def first_call_def)
  from wuto_progress_bounded[OF mission_wf_init p0 d(2) f(1) f(2)] f(3,4,5)
  have 1: "progress (segments m2 ! 0) = progress (segments m1 ! 0) + 20" by simp
  from wuto_progress_bounded[OF mission_wf_init p0 d(1) s(1) s(2)] s(3)
  have 2: "progress (segments n1 ! 0) \<le> 30 + 20
      \<and> progress (segments n2 ! 0) = progress (segments n1 ! 0)"
    by simp
  from f s 1 2 show ?thesis by blast
qed

section \<open>The collision check\<close>











section \<open>The crash flag\<close>

lemma handle_event_other:
  assumes "ev \<noteq> KEYDOWN K_r \<or> \<not> crashed s"
  shows "aircraft (handle_event s ev) = aircraft s"
    "world (handle_event s ev) = world s"
    "crashed (handle_event s ev) = crashed s"
    "warning_timer (handle_event s ev) = warning_timer s"
    "collision_warning (handle_event s ev) = collision_warning s"
    "segments (mission (handle_event s ev)) = segments (mission s)"
    "current_segment_index (mission (handle_event s ev)) = current_segment_index (mission s)"
  using assms
  by (auto simp: handle_event_def toggle_display_def cycle_camera_mode_def
      split: event.splits)

lemma handle_event_restart:
  "crashed s \<Longrightarrow> handle_event s (KEYDOWN K_r) = reset_simulation s"
  by (simp add: handle_event_def)

lemma reset_simulation_flags:
  "crashed (reset_simulation s) = False"
  "collision_warning (reset_simulation s) = False"
  "warning_timer (reset_simulation s) = 0"
  by (simp_all add: reset_simulation_def)

lemma handle_events_no_restart:
  assumes "KEYDOWN K_r \<notin> set evs"
  shows "aircraft (handle_events s evs) = aircraft s
    \<and> world (handle_events s evs) = world s
    \<and> crashed (handle_events s evs) = crashed s
    \<and> warning_timer (handle_events s evs) = warning_timer s
    \<and> collision_warning (handle_events s evs) = collision_warning s
    \<and> segments (mission (handle_events s evs)) = segments (mission s)
    \<and> current_segment_index (mission (handle_events s evs)) = current_segment_index (mission s)"
  using assms
proof (induction evs arbitrary: s)
  case Nil
  then show ?case by (simp add: handle_events_def)
next
  case (Cons ev evs)
  have e: "ev \<noteq> KEYDOWN K_r \<or> \<not> crashed s" using Cons.prems by auto
  have "handle_events s (ev # evs) = handle_events (handle_event s ev) evs"
    by (simp add: handle_events_def)
  with Cons.IH[of "handle_event s ev"] Cons.prems handle_event_other[OF e]
  show ?case by simp
qed

lemma FlightSimulator_update_frozen:
  "paused s \<or> crashed s \<Longrightarrow> FlightSimulator_update s dt keys = Inr s"
  by (simp add: FlightSimulator_update_def)

lemma check_collisions_crashed: "crashed s \<Longrightarrow> crashed (check_collisions s dt)"
  by (simp add: check_collisions_def Let_def)

lemma run_crashed:
  assumes "crashed s" "\<forall>fr\<in>set frs. KEYDOWN K_r \<notin> set (fst fr)"
  shows "\<exists>s'. run s frs = Inr s' \<and> crashed s' \<and> aircraft s' = aircraft s
    \<and> warning_timer s' = warning_timer s \<and> collision_warning s' = collision_warning s
    \<and> segments (mission s') = segments (mission s)
    \<and> current_segment_index (mission s') = current_segment_index (mission s)"
  using assms
proof (induction frs arbitrary: s)
  case Nil
  then show ?case by simp
next
  case (Cons fr frs)
  obtain evs dt keys where fr: "fr = (evs, dt, keys)" by (cases fr) auto
  let ?t = "handle_events s evs"
  have nr: "KEYDOWN K_r \<notin> set evs" using Cons.prems(2) fr by simp
  note h = handle_events_no_restart[OF nr, of s]
  have c: "crashed ?t" using h Cons.prems(1) by simp
  have t: "tick s fr = Inr ?t"
    using FlightSimulator_update_frozen[of ?t dt keys] c by (simp add: tick_def fr)
  show ?case
  proof (cases "running s")
    case False
    with Cons.prems(1) show ?thesis by simp
  next
    case True
    from Cons.IH[OF c] Cons.prems(2) obtain s' where
      "run ?t frs = Inr s'" "crashed s'" "aircraft s' = aircraft ?t"
      "warning_timer s' = warning_timer ?t" "collision_warning s' = collision_warning ?t"
      "segments (mission s') = segments (mission ?t)"
      "current_segment_index (mission s') = current_segment_index (mission ?t)"
      by auto
    with True t h show ?thesis by simp
  qed
qed

text \<open>
  Claim C3. In a crashed state \<^verbatim>\<open>FlightSimulator.update\<close> changes nothing, the collision
  check keeps the flag, and of all events only the restart key clears it, by calling
  \<^verbatim>\<open>reset_simulation\<close>. So over any number of frames without the restart key the driver
  stays crashed, with the aircraft, the timer, the warning and the mission segments as
  they were.
\<close>

theorem crash_is_terminal:
  assumes "crashed s" "\<forall>fr\<in>set frs. KEYDOWN K_r \<notin> set (fst fr)"
  shows "FlightSimulator_update s dt keys = Inr s
    \<and> crashed (check_collisions s dt)
    \<and> (\<forall>ev. crashed (handle_event s ev) \<longleftrightarrow> ev \<noteq> KEYDOWN K_r)
    \<and> handle_event s (KEYDOWN K_r) = reset_simulation s
    \<and> \<not> crashed (reset_simulation s)
    \<and> (\<exists>s'. run s frs = Inr s' \<and> crashed s' \<and> aircraft s' = aircraft s
          \<and> warning_timer s' = warning_timer s
          \<and> collision_warning s' = collision_warning s
          \<and> segments (mission s') = segments (mission s)
          \<and> current_segment_index (mission s') = current_segment_index (mission s))"
proof -
  have "crashed (handle_event s ev) \<longleftrightarrow> ev \<noteq> KEYDOWN K_r" for ev
  proof (cases "ev = KEYDOWN K_r")
    case True
    then show ?thesis
      using handle_event_restart[OF assms(1)] by (simp add: reset_simulation_flags)
  next
    case False
    then show ?thesis using handle_event_other(3)[of ev s] assms(1) by simp
  qed
  with run_crashed[OF assms] FlightSimulator_update_frozen[of s dt keys]
    check_collisions_crashed[OF assms(1)] handle_event_restart[OF assms(1)] assms(1)
  show ?thesis by (simp add: reset_simulation_flags)
qed

theorem crash_is_terminal_witness:
  "crashed crashed_sim
   \<and> FlightSimulator_update crashed_sim (1/60) shift_keys = Inr crashed_sim
   \<and> crashed (handle_event crashed_sim (KEYDOWN K_p))
   \<and> \<not> crashed (handle_event crashed_sim (KEYDOWN K_r))
   \<and> (\<exists>s'. run crashed_sim frames_without_restart = Inr s' \<and> crashed s'
         \<and> aircraft s' = aircraft crashed_sim
         \<and> warning_timer s' = warning_timer crashed_sim)"
proof -
  have c: "crashed crashed_sim" by (simp add: crashed_sim_def)
  have f: "\<forall>fr\<in>set frames_without_restart. KEYDOWN K_r \<notin> set (fst fr)"
    by (simp add: frames_without_restart_def)
  from crash_is_terminal[OF c f, of "1/60" shift_keys] c show ?thesis by auto
qed

section \<open>The warning timer\<close>

lemma crashed_sim_simps:
  "crashed crashed_sim" "collision_warning crashed_sim" "warning_timer crashed_sim = 1/60"
  by (simp_all add: crashed_sim_def)

lemma handle_events_Nil: "handle_events s [] = s"
  by (simp add: handle_events_def)

lemma handle_events_Cons: "handle_events s (ev # evs) = handle_events (handle_event s ev) evs"
  by (simp add: handle_events_def)

text \<open>
  Claim C8, as stated, fails on the frames of a crashed (or paused) driver: the warning
  stays true and the timer stays where it was. Here the crashed driver with the warning
  on and the timer at 1/60 s: the next frame returns the same state, so the timer has
  not grown by \<open>dt\<close>.
\<close>

theorem frozen_timer_counterexample:
  "collision_warning crashed_sim
   \<and> tick crashed_sim quiet_frame = Inr crashed_sim
   \<and> \<not> spec_timer_law crashed_sim (1/60) crashed_sim"
  by (simp add: tick_def quiet_frame_def handle_events_Nil FlightSimulator_update_frozen
      crashed_sim_simps spec_timer_law_def)

lemma check_collisions_timer:
  "warning_timer (check_collisions s dt) =
     (if collision_warning (check_collisions s dt) then warning_timer s + dt else 0)"
  by (simp add: check_collisions_def Let_def)

lemma update_camera_Inr: "update_camera s = Inr s' \<Longrightarrow> s' = s \<and> camera_mode s \<noteq> orbit"
  by (auto simp: update_camera_def split: if_splits)

lemma FlightSimulator_update_active:
  assumes "FlightSimulator_update s dt keys = Inr s'" "\<not> paused s" "\<not> crashed s"
  obtains a m a' where
    "Aircraft_update (aircraft s) dt keys = Inr a"
    "MissionProfile_update (mission s) a dt = Inr (m, a')"
    "s' = check_collisions (s\<lparr>aircraft := a', mission := m\<rparr>) dt"
    "camera_mode s \<noteq> orbit"
proof -
  from assms obtain a where a: "Aircraft_update (aircraft s) dt keys = Inr a"
    by (auto simp: FlightSimulator_update_def split: sum.splits)
  with assms obtain m a' where m: "MissionProfile_update (mission s) a dt = Inr (m, a')"
    by (auto simp: FlightSimulator_update_def split: sum.splits)
  with a assms have
    c: "update_camera (check_collisions (s\<lparr>aircraft := a', mission := m\<rparr>) dt) = Inr s'"
    by (simp add: FlightSimulator_update_def)
  from update_camera_Inr[OF c] have
    "s' = check_collisions (s\<lparr>aircraft := a', mission := m\<rparr>) dt"
    "camera_mode (check_collisions (s\<lparr>aircraft := a', mission := m\<rparr>) dt) \<noteq> orbit"
    by simp_all
  moreover have "camera_mode (check_collisions (s\<lparr>aircraft := a', mission := m\<rparr>) dt)
      = camera_mode s"
    by (simp add: check_collisions_def Let_def)
  ultimately show ?thesis using that a m by simp
qed

lemma FlightSimulator_update_timer:
  assumes "FlightSimulator_update s dt keys = Inr s'"
  shows "(paused s \<or> crashed s \<longrightarrow> s' = s)
    \<and> (\<not> paused s \<and> \<not> crashed s \<longrightarrow>
         warning_timer s' = (if collision_warning s' then warning_timer s + dt else 0))"
proof (cases "paused s \<or> crashed s")
  case True
  with assms FlightSimulator_update_frozen[of s dt keys] show ?thesis by auto
next
  case False
  then have np: "\<not> paused s" and nc: "\<not> crashed s" by auto
  from FlightSimulator_update_active[OF assms np nc] obtain a m a' where
    "s' = check_collisions (s\<lparr>aircraft := a', mission := m\<rparr>) dt" by blast
  with check_collisions_timer[of "s\<lparr>aircraft := a', mission := m\<rparr>" dt] False
  show ?thesis by simp
qed

lemma handle_event_timer_inv:
  "collision_warning s \<or> warning_timer s = 0 \<Longrightarrow>
     collision_warning (handle_event s ev) \<or> warning_timer (handle_event s ev) = 0"
  by (auto simp: handle_event_def reset_simulation_def toggle_display_def
      cycle_camera_mode_def split: event.splits)

lemma handle_events_timer_inv:
  "collision_warning s \<or> warning_timer s = 0 \<Longrightarrow>
     collision_warning (handle_events s evs) \<or> warning_timer (handle_events s evs) = 0"
proof (induction evs arbitrary: s)
  case Nil
  then show ?case by (simp add: handle_events_Nil)
next
  case (Cons ev evs)
  from Cons.IH[OF handle_event_timer_inv[OF Cons.prems, of ev]]
  show ?case by (simp add: handle_events_Cons)
qed

lemma FlightSimulator_update_timer_inv:
  assumes "FlightSimulator_update s dt keys = Inr s'"
    and "collision_warning s \<or> warning_timer s = 0"
  shows "collision_warning s' \<or> warning_timer s' = 0"
  using FlightSimulator_update_timer[OF assms(1)] assms(2)
  by (cases "paused s \<or> crashed s") (auto split: if_splits)

lemma run_timer_inv:
  assumes "run s frs = Inr s'" "collision_warning s \<or> warning_timer s = 0"
  shows "collision_warning s' \<or> warning_timer s' = 0"
  using assms
proof (induction frs arbitrary: s)
  case Nil
  then show ?case by simp
next
  case (Cons fr frs)
  show ?case
  proof (cases "running s")
    case False
    with Cons.prems show ?thesis by simp
  next
    case True
    obtain evs dt keys where fr: "fr = (evs, dt, keys)" by (cases fr) auto
    from Cons.prems(1) True fr obtain s1 where
      u: "FlightSimulator_update (handle_events s evs) dt keys = Inr s1" and
      r: "run s1 frs = Inr s'"
      by (auto simp: tick_def split: sum.splits)
    from FlightSimulator_update_timer_inv[OF u handle_events_timer_inv[OF Cons.prems(2)]]
    have "collision_warning s1 \<or> warning_timer s1 = 0" .
    from Cons.IH[OF r this] show ?thesis .
  qed
qed

lemma init_timer_inv:
  "collision_warning (FlightSimulator_init w) \<or> warning_timer (FlightSimulator_init w) = 0"
  by (simp add: FlightSimulator_init_def)

text \<open>
  Claim C8, amended. In every state of a run the warning timer is zero whenever
  \<open>collision_warning\<close> is false. On a frame of a driver that is neither paused nor
  crashed, if \<open>collision_warning\<close> is true after the update then the timer has grown by
  exactly \<open>dt\<close>; on a frame of a paused or crashed driver the timer and the warning are
  unchanged.
\<close>

theorem warning_timer_law:
  assumes "run (FlightSimulator_init w) frs = Inr s0"
    and "s = handle_events s0 evs"
    and "FlightSimulator_update s dt keys = Inr s'"
  shows "(\<not> collision_warning s \<longrightarrow> warning_timer s = 0)
    \<and> (\<not> collision_warning s' \<longrightarrow> warning_timer s' = 0)
    \<and> (\<not> paused s \<and> \<not> crashed s \<and> collision_warning s' \<longrightarrow>
         warning_timer s' = warning_timer s + dt)
    \<and> (paused s \<or> crashed s \<longrightarrow>
         warning_timer s' = warning_timer s \<and> collision_warning s' = collision_warning s)"
proof -
  have i: "collision_warning s \<or> warning_timer s = 0"
    unfolding assms(2)
    by (rule handle_events_timer_inv[OF run_timer_inv[OF assms(1) init_timer_inv]])
  from FlightSimulator_update_timer_inv[OF assms(3) i] FlightSimulator_update_timer[OF assms(3)] i
  show ?thesis by auto
qed

subsection \<open>A frame that ends in a crash\<close>

text \<open>
  Over level ground at 20000 m the first frame of a new driver ends in a crash: the
  aircraft moves at most \<open>max_speed * dt\<close> sideways, so it stays over the height map, and
  it cannot be above the service ceiling.
\<close>

lemma abs_component_le: "\<bar>vx v\<bar> \<le> vlength v" "\<bar>vz v\<bar> \<le> vlength v"
proof -
  have "sqrt (vx v * vx v) \<le> sqrt (vx v * vx v + vy v * vy v + vz v * vz v)"
    by (rule real_sqrt_le_mono) simp
  then show "\<bar>vx v\<bar> \<le> vlength v" by (simp add: vlength_def)
  have "sqrt (vz v * vz v) \<le> sqrt (vx v * vx v + vy v * vy v + vz v * vz v)"
    by (rule real_sqrt_le_mono) simp
  then show "\<bar>vz v\<bar> \<le> vlength v" by (simp add: vlength_def)
qed

lemma clamp_altitude_xz:
  "vx (position (clamp_altitude a)) = vx (position a)"
  "vz (position (clamp_altitude a)) = vz (position a)"
  by (simp_all add: clamp_altitude_def Let_def)

lemma update_physics_xz:
  assumes "update_physics a dt = Inr b"
  shows "\<bar>vx (position b) - vx (position a)\<bar> \<le> max_speed * \<bar>dt\<bar>"
    and "\<bar>vz (position b) - vz (position a)\<bar> \<le> max_speed * \<bar>dt\<bar>"
proof -
  from assms obtain acc v where
    v: "clamp_speed (vadd (velocity a) (vscale acc dt)) = Inr v" and
    b: "b = clamp_altitude (a\<lparr>velocity := v, position := vadd (position a) (vscale v dt)\<rparr>)"
    by (auto simp: update_physics_def split: sum.splits)
  have x: "vx (position b) - vx (position a) = vx v * dt"
    and z: "vz (position b) - vz (position a) = vz v * dt"
    by (simp_all add: b clamp_altitude_xz vadd_def vscale_def Vec_sel)
  have "\<bar>vx v\<bar> \<le> max_speed" "\<bar>vz v\<bar> \<le> max_speed"
    using abs_component_le[of v] clamp_speed_le[OF v] by simp_all
  then have "\<bar>vx v\<bar> * \<bar>dt\<bar> \<le> max_speed * \<bar>dt\<bar>" "\<bar>vz v\<bar> * \<bar>dt\<bar> \<le> max_speed * \<bar>dt\<bar>"
    by (simp_all add: mult_right_mono)
  then show "\<bar>vx (position b) - vx (position a)\<bar> \<le> max_speed * \<bar>dt\<bar>"
    and "\<bar>vz (position b) - vz (position a)\<bar> \<le> max_speed * \<bar>dt\<bar>"
    by (simp_all add: x z abs_mult)
qed

lemma Aircraft_update_xz:
  assumes "Aircraft_update a dt keys = Inr c"
  shows "\<bar>vx (position c) - vx (position a)\<bar> \<le> max_speed * \<bar>dt\<bar>"
    and "\<bar>vz (position c) - vz (position a)\<bar> \<le> max_speed * \<bar>dt\<bar>"
    and "vy (position c) \<le> service_ceiling"
proof -
  from assms obtain b where p: "update_physics (update_controls a dt keys) dt = Inr b"
    and c: "c = update_mission_data (snd (update_fuel b dt)) dt"
    by (rule Aircraft_update_Inr)
  have pc: "position c = position b"
    by (simp add: c update_mission_data_kinematics update_fuel_kinematics)
  show "\<bar>vx (position c) - vx (position a)\<bar> \<le> max_speed * \<bar>dt\<bar>"
    and "\<bar>vz (position c) - vz (position a)\<bar> \<le> max_speed * \<bar>dt\<bar>"
    using update_physics_xz[OF p] by (simp_all add: pc update_controls_fixed)
  show "vy (position c) \<le> service_ceiling"
    using update_physics_bounds[OF p] by (simp add: pc)
qed

lemma floor_in_grid:
  fixes r :: real
  shows "0 \<le> r \<Longrightarrow> r < 100 \<Longrightarrow> 0 \<le> \<lfloor>r\<rfloor> \<and> \<lfloor>r\<rfloor> < 100"
  by (simp add: floor_less_iff)

lemma level_terrain_near:
  assumes "\<bar>x\<bar> < 50" "\<bar>z\<bar> < 50"
  shows "get_terrain_height (level_world h) x z = h"
proof -
  have x: "0 \<le> x / 50 + 50" "x / 50 + 50 < 100" and z: "0 \<le> z / 50 + 50" "z / 50 + 50 < 100"
    using assms by (simp_all add: abs_less_iff)
  from floor_in_grid[OF x] floor_in_grid[OF z] show ?thesis
    using x z
    by (simp add: get_terrain_height_def level_world_def py_int_def terrain_size_def
        terrain_scale_def Let_def)
qed

lemma init_mission_first_update:
  "\<exists>m. MissionProfile_update MissionProfile_init a (1/60)
        = Inr (m, a\<lparr>mission_data := (mission_data a)\<lparr>md_phase := ''WUTO''\<rparr>, throttle := 0.3\<rparr>)"
  by (simp add: MissionProfile_update_def MissionProfile_init_def create_default_mission_def
      MissionSegment_init_def execute_segment_def execute_wuto_def Let_def
      record_profile_data_def empty_profile_data_def py_int_def)

lemma mesa_first_frame:
  "\<exists>s. FlightSimulator_update (FlightSimulator_init mesa) (1/60) no_keys = Inr s
     \<and> crashed s \<and> collision_warning s \<and> warning_timer s = 1/60"
proof -
  let ?i = "FlightSimulator_init mesa"
  have i: "aircraft ?i = Aircraft_default" "mission ?i = MissionProfile_init"
    "\<not> paused ?i" "\<not> crashed ?i" "camera_mode ?i = third_person" "world ?i = mesa"
    "warning_timer ?i = 0"
    by (simp_all add: FlightSimulator_init_def)
  have "get_total_mass Aircraft_default \<noteq> 0"
    by (simp add: get_total_mass_def Aircraft_default_simps)
  from Aircraft_update_total[OF this Aircraft_default_density] obtain a
    where a: "Aircraft_update Aircraft_default (1/60) no_keys = Inr a" by blast
  let ?a = "a\<lparr>mission_data := (mission_data a)\<lparr>md_phase := ''WUTO''\<rparr>, throttle := 0.3\<rparr>"
  from init_mission_first_update[of a] obtain m where
    m: "MissionProfile_update MissionProfile_init a (1/60) = Inr (m, ?a)" by blast
  let ?s = "?i\<lparr>aircraft := ?a, mission := m\<rparr>"
  have u: "FlightSimulator_update ?i (1/60) no_keys = Inr (check_collisions ?s (1/60))"
    by (simp add: FlightSimulator_update_def i a m update_camera_def check_collisions_def Let_def)
  from Aircraft_update_xz[OF a] have
    "\<bar>vx (position a)\<bar> < 50" "\<bar>vz (position a)\<bar> < 50" "vy (position a) \<le> 12000"
    by (simp_all add: Aircraft_default_simps Vec_sel max_speed_def service_ceiling_def)
  then have "altitude_agl ?s \<le> 5"
    using level_terrain_near[of "vx (position a)" "vz (position a)" 20000, folded mesa_def]
    by (simp add: altitude_agl_def i)
  then have "crashed (check_collisions ?s (1/60))"
    "collision_warning (check_collisions ?s (1/60))"
    "warning_timer (check_collisions ?s (1/60)) = 1/60"
    by (simp_all add: check_collisions_def Let_def i)
  with u show ?thesis by simp
qed

text \<open>
  So a crashed state with the warning on is reached in a run, and the frame after it
  leaves the timer where it was.
\<close>

lemma crash_reached_in_run:
  "\<exists>s. run (FlightSimulator_init mesa) [quiet_frame] = Inr s
     \<and> crashed s \<and> collision_warning s \<and> warning_timer s = 1/60
     \<and> run (FlightSimulator_init mesa) [quiet_frame, quiet_frame] = Inr s"
proof -
  from mesa_first_frame obtain s where
    s: "FlightSimulator_update (FlightSimulator_init mesa) (1/60) no_keys = Inr s"
      "crashed s" "collision_warning s" "warning_timer s = 1/60" by blast
  have r: "running (FlightSimulator_init mesa)" by (simp add: FlightSimulator_init_def)
  have t1: "tick (FlightSimulator_init mesa) quiet_frame = Inr s"
    by (simp add: tick_def quiet_frame_def handle_events_Nil s)
  have t2: "tick s quiet_frame = Inr s"
    using FlightSimulator_update_frozen[of s "1/60" no_keys] s(2)
    by (simp add: tick_def quiet_frame_def handle_events_Nil)
  have "run (FlightSimulator_init mesa) [quiet_frame] = Inr s" using r t1 by simp
  moreover have "run (FlightSimulator_init mesa) [quiet_frame, quiet_frame] = Inr s"
    using r t1 t2 by simp
  ultimately show ?thesis using s by blast
qed

text \<open>
  Over level ground at 0 m the first frame of a new driver raises no warning: the
  aircraft stays within \<open>max_speed * dt\<close> of its 500 m.
\<close>

lemma abs_vy_le: "\<bar>vy v\<bar> \<le> vlength v"
proof -
  have "sqrt (vy v * vy v) \<le> sqrt (vx v * vx v + vy v * vy v + vz v * vz v)"
    by (rule real_sqrt_le_mono) simp
  then show ?thesis by (simp add: vlength_def)
qed

lemma clamp_altitude_y:
  assumes "10 \<le> y0" "y0 \<le> service_ceiling"
  shows "\<bar>vy (position (clamp_altitude a)) - y0\<bar> \<le> \<bar>vy (position a) - y0\<bar>"
  using assms by (simp add: clamp_altitude_def Let_def service_ceiling_def)

lemma update_physics_y:
  assumes "update_physics a dt = Inr b"
    and "10 \<le> vy (position a)" "vy (position a) \<le> service_ceiling"
  shows "\<bar>vy (position b) - vy (position a)\<bar> \<le> max_speed * \<bar>dt\<bar>"
proof -
  from assms(1) obtain acc v where
    v: "clamp_speed (vadd (velocity a) (vscale acc dt)) = Inr v" and
    b: "b = clamp_altitude (a\<lparr>velocity := v, position := vadd (position a) (vscale v dt)\<rparr>)"
    by (auto simp: update_physics_def split: sum.splits)
  let ?c = "a\<lparr>velocity := v, position := vadd (position a) (vscale v dt)\<rparr>"
  have "\<bar>vy (position b) - vy (position a)\<bar> \<le> \<bar>vy (position ?c) - vy (position a)\<bar>"
    unfolding b by (rule clamp_altitude_y[OF assms(2,3)])
  also have "\<dots> = \<bar>vy v\<bar> * \<bar>dt\<bar>"
    by (simp add: vadd_def vscale_def Vec_sel abs_mult)
  also have "\<dots> \<le> max_speed * \<bar>dt\<bar>"
    using abs_vy_le[of v] clamp_speed_le[OF v] by (simp add: mult_right_mono)
  finally show ?thesis .
qed

lemma Aircraft_update_y:
  assumes "Aircraft_update a dt keys = Inr c"
    and "10 \<le> vy (position a)" "vy (position a) \<le> service_ceiling"
  shows "\<bar>vy (position c) - vy (position a)\<bar> \<le> max_speed * \<bar>dt\<bar>"
proof -
  from assms(1) obtain b where p: "update_physics (update_controls a dt keys) dt = Inr b"
    and c: "c = update_mission_data (snd (update_fuel b dt)) dt"
    by (rule Aircraft_update_Inr)
  have pc: "position c = position b"
    by (simp add: c update_mission_data_kinematics update_fuel_kinematics)
  from update_physics_y[OF p] assms(2,3) show ?thesis
    by (simp add: pc update_controls_fixed)
qed

lemma level_first_frame:
  "\<exists>s. FlightSimulator_update (FlightSimulator_init (level_world 0)) (1/60) no_keys = Inr s
     \<and> \<not> crashed s \<and> \<not> collision_warning s \<and> warning_timer s = 0"
proof -
  let ?i = "FlightSimulator_init (level_world 0)"
  have i: "aircraft ?i = Aircraft_default" "mission ?i = MissionProfile_init"
    "\<not> paused ?i" "\<not> crashed ?i" "camera_mode ?i = third_person"
    "world ?i = level_world 0" "warning_timer ?i = 0"
    by (simp_all add: FlightSimulator_init_def)
  have "get_total_mass Aircraft_default \<noteq> 0"
    by (simp add: get_total_mass_def Aircraft_default_simps)
  from Aircraft_update_total[OF this Aircraft_default_density] obtain a
    where a: "Aircraft_update Aircraft_default (1/60) no_keys = Inr a" by blast
  let ?a = "a\<lparr>mission_data := (mission_data a)\<lparr>md_phase := ''WUTO''\<rparr>, throttle := 0.3\<rparr>"
  from init_mission_first_update[of a] obtain m where
    m: "MissionProfile_update MissionProfile_init a (1/60) = Inr (m, ?a)" by blast
  let ?s = "?i\<lparr>aircraft := ?a, mission := m\<rparr>"
  have u: "FlightSimulator_update ?i (1/60) no_keys = Inr (check_collisions ?s (1/60))"
    by (simp add: FlightSimulator_update_def i a m update_camera_def check_collisions_def Let_def)
  have "\<bar>vy (position a) - 500\<bar> \<le> 250 * \<bar>1/60\<bar>"
    using Aircraft_update_y[OF a]
    by (simp add: Aircraft_default_simps Vec_sel max_speed_def service_ceiling_def)
  then have y: "100 \<le> vy (position a)" by linarith
  from Aircraft_update_xz[OF a] have
    "\<bar>vx (position a)\<bar> < 50" "\<bar>vz (position a)\<bar> < 50"
    by (simp_all add: Aircraft_default_simps Vec_sel max_speed_def)
  then have agl: "100 \<le> altitude_agl ?s"
    using level_terrain_near[of "vx (position a)" "vz (position a)" 0] y
    by (simp add: altitude_agl_def i)
  have bl: "buildings (level_world 0) = []" by (simp add: level_world_def)
  have nb: "min_building_distance (world ?s) (position (aircraft ?s)) = None"
    by (simp add: min_building_distance_def i bl)
  from agl nb have "\<not> crashed (check_collisions ?s (1/60))"
    "\<not> collision_warning (check_collisions ?s (1/60))"
    "warning_timer (check_collisions ?s (1/60)) = 0"
    by (simp_all add: check_collisions_def Let_def i inf_less_def inf_le_def)
  with u show ?thesis by simp
qed

theorem warning_timer_law_witness:
  "\<exists>s1 s2 t1.
     run (FlightSimulator_init mesa) [] = Inr (FlightSimulator_init mesa)
     \<and> FlightSimulator_update (handle_events (FlightSimulator_init mesa) []) (1/60) no_keys
         = Inr s1
     \<and> \<not> paused (FlightSimulator_init mesa) \<and> \<not> crashed (FlightSimulator_init mesa)
     \<and> collision_warning s1
     \<and> warning_timer s1 = warning_timer (FlightSimulator_init mesa) + 1/60
     \<and> run (FlightSimulator_init mesa) [quiet_frame] = Inr s1
     \<and> crashed s1
     \<and> FlightSimulator_update (handle_events s1 []) (1/60) no_keys = Inr s2
     \<and> warning_timer s2 = warning_timer s1 \<and> collision_warning s2
     \<and> FlightSimulator_update (handle_events (FlightSimulator_init (level_world 0)) [])
          (1/60) no_keys = Inr t1
     \<and> \<not> collision_warning t1 \<and> warning_timer t1 = 0"
proof -
  let ?i = "FlightSimulator_init mesa" and ?j = "FlightSimulator_init (level_world 0)"
  from crash_reached_in_run obtain s1 where
    r1: "run ?i [quiet_frame] = Inr s1" and c1: "crashed s1" "collision_warning s1" by blast
  have f: "\<not> paused ?i" "\<not> crashed ?i" "running ?i" by (simp_all add: FlightSimulator_init_def)
  have u1: "FlightSimulator_update ?i (1/60) no_keys = Inr s1"
    using r1 f(3) by (simp add: tick_def quiet_frame_def handle_events_Nil split: sum.splits)
  have u2: "FlightSimulator_update s1 (1/60) no_keys = Inr s1"
    using FlightSimulator_update_frozen[of s1] c1(1) by simp
  from level_first_frame obtain t1 where
    u3: "FlightSimulator_update ?j (1/60) no_keys = Inr t1" and n3: "\<not> collision_warning t1"
    by blast
  have r0: "run ?i [] = Inr ?i" "run ?j [] = Inr ?j" by simp_all
  from warning_timer_law[OF r0(1) _ u1, of "[]"] c1(2) f
  have 1: "warning_timer s1 = warning_timer ?i + 1/60" by (simp add: handle_events_Nil)
  from warning_timer_law[OF r1 _ u2, of "[]"] c1
  have 2: "warning_timer s1 = warning_timer s1 \<and> collision_warning s1"
    by (simp add: handle_events_Nil)
  from warning_timer_law[OF r0(2) _ u3, of "[]"] n3
  have 3: "warning_timer t1 = 0" by (simp add: handle_events_Nil)
  from r0 r1 u1 u2 u3 c1 n3 f 1 3 show ?thesis by (auto simp: handle_events_Nil)
qed

section \<open>Reset\<close>

text \<open>
  No step of a run changes the configured values of the aircraft or anything in a
  segment but \<open>completed\<close>, \<open>progress\<close> and \<open>turn_time\<close>.
\<close>

lemma Aircraft_update_config:
  assumes "Aircraft_update a dt keys = Inr c"
  shows "config c = config a"
proof -
  from assms obtain b where p: "update_physics (update_controls a dt keys) dt = Inr b"
    and c: "c = update_mission_data (snd (update_fuel b dt)) dt"
    by (rule Aircraft_update_Inr)
  show ?thesis
    using update_physics_fixed[OF p]
    by (simp add: config_def c update_mission_data_fixed update_fuel_fixed update_controls_fixed)
qed

lemma execute_wuto_config:
  "execute_wuto seg a dt = Inr (seg', a') \<Longrightarrow> config a' = config a"
  by (auto simp: execute_wuto_def config_def split: if_splits option.splits)

lemma execute_climb_config:
  "execute_climb seg a dt = Inr (seg', a') \<Longrightarrow> config a' = config a"
  by (auto simp: execute_climb_def config_def Let_def split: if_splits option.splits)

lemma execute_cruise_config:
  "execute_cruise seg a dt = Inr (seg', a') \<Longrightarrow> config a' = config a"
  by (auto simp: execute_cruise_def config_def Let_def split: if_splits option.splits)

lemma execute_turn_config:
  "execute_turn seg a dt = Inr (seg', a') \<Longrightarrow> config a' = config a"
  by (auto simp: execute_turn_def config_def Let_def split: if_splits option.splits)

lemma execute_descent_config:
  "execute_descent seg a dt = Inr (seg', a') \<Longrightarrow> config a' = config a"
  by (auto simp: execute_descent_def config_def Let_def split: if_splits option.splits)

lemma execute_landing_config:
  "execute_landing seg a dt = Inr (seg', a') \<Longrightarrow> config a' = config a"
  by (auto simp: execute_landing_def config_def Let_def split: if_splits option.splits)

lemma config_phase: "config (a\<lparr>mission_data := d\<rparr>) = config a"
  by (simp add: config_def)

lemma execute_segment_config:
  assumes "execute_segment seg a dt = Inr (seg', a')"
  shows "config a' = config a"
proof -
  let ?a = "a\<lparr>mission_data := (mission_data a)\<lparr>md_phase := name seg\<rparr>\<rparr>"
  have "config a' = config ?a"
    using assms execute_wuto_config[of seg ?a dt seg' a'] execute_climb_config[of seg ?a dt seg' a']
      execute_cruise_config[of seg ?a dt seg' a'] execute_turn_config[of seg ?a dt seg' a']
      execute_descent_config[of seg ?a dt seg' a'] execute_landing_config[of seg ?a dt seg' a']
    unfolding execute_segment_def Let_def
    by (auto split: if_splits)
  then show ?thesis by (simp add: config_phase)
qed

lemma MissionProfile_update_config:
  assumes "MissionProfile_update m a dt = Inr (m', a')"
  shows "config a' = config a"
proof (cases "mission_complete m \<or> current_segment_index m \<ge> length (segments m)")
  case True
  then show ?thesis using assms MissionProfile_update_idle[of m a dt] by auto
next
  case False
  from assms False obtain seg a1 where
    e: "execute_segment (segments m ! current_segment_index m) a dt = Inr (seg, a1)"
    by (auto simp: MissionProfile_update_def split: sum.splits)
  with assms False have "a' = a1 \<or> a' = a1\<lparr>mission_data := (mission_data a1)\<lparr>md_phase := ''COMPLETE''\<rparr>\<rparr>"
    by (auto simp: MissionProfile_update_def Let_def split: if_splits)
  then have "config a' = config a1" by (auto simp: config_phase)
  with execute_segment_config[OF e] show ?thesis by simp
qed

lemma Aircraft_reset_default:
  "config a = config Aircraft_default \<Longrightarrow> Aircraft_reset a = Aircraft_default"
  by (simp add: config_def Aircraft_reset_def Aircraft_default_def Aircraft_init_def)

lemma MissionProfile_reset_init:
  "map reset_segment (segments m) = create_default_mission \<Longrightarrow>
     MissionProfile_reset m = MissionProfile_init\<lparr>display_enabled := display_enabled m\<rparr>"
  by (simp add: MissionProfile_reset_def MissionProfile_init_def)

lemma reset_segment_idem: "reset_segment (reset_segment seg) = reset_segment seg"
  by (simp add: reset_segment_def)

lemma reset_default_mission: "map reset_segment create_default_mission = create_default_mission"
  by (simp add: create_default_mission_def MissionSegment_init_def reset_segment_def)

lemma handle_event_restorable:
  assumes "config (aircraft s) = config Aircraft_default"
    and "map reset_segment (segments (mission s)) = create_default_mission"
  shows "config (aircraft (handle_event s ev)) = config Aircraft_default
    \<and> map reset_segment (segments (mission (handle_event s ev))) = create_default_mission"
proof (cases "ev = KEYDOWN K_r \<and> crashed s")
  case True
  then have "handle_event s ev = reset_simulation s" by (simp add: handle_event_def)
  with assms show ?thesis
    by (simp add: reset_simulation_def Aircraft_reset_default MissionProfile_reset_init
        MissionProfile_init_def reset_default_mission)
next
  case False
  then have "ev \<noteq> KEYDOWN K_r \<or> \<not> crashed s" by auto
  from handle_event_other[OF this] assms show ?thesis by simp
qed

lemma handle_events_restorable:
  assumes "config (aircraft s) = config Aircraft_default"
    and "map reset_segment (segments (mission s)) = create_default_mission"
  shows "config (aircraft (handle_events s evs)) = config Aircraft_default
    \<and> map reset_segment (segments (mission (handle_events s evs))) = create_default_mission"
  using assms
proof (induction evs arbitrary: s)
  case Nil
  then show ?case by (simp add: handle_events_Nil)
next
  case (Cons ev evs)
  from handle_event_restorable[OF Cons.prems, of ev] Cons.IH[of "handle_event s ev"]
  show ?case by (simp add: handle_events_Cons)
qed

lemma check_collisions_restorable:
  "config (aircraft (check_collisions s dt)) = config (aircraft s)"
  "mission (check_collisions s dt) = mission s"
  by (simp_all add: check_collisions_def Let_def config_def)

lemma FlightSimulator_update_restorable:
  assumes "FlightSimulator_update s dt keys = Inr s'"
    and "config (aircraft s) = config Aircraft_default"
    and "map reset_segment (segments (mission s)) = create_default_mission"
  shows "config (aircraft s') = config Aircraft_default
    \<and> map reset_segment (segments (mission s')) = create_default_mission"
proof (cases "paused s \<or> crashed s")
  case True
  with assms FlightSimulator_update_frozen[of s dt keys] show ?thesis by auto
next
  case False
  then have np: "\<not> paused s" and nc: "\<not> crashed s" by auto
  from FlightSimulator_update_active[OF assms(1) np nc] obtain a m a' where
    a: "Aircraft_update (aircraft s) dt keys = Inr a" and
    m: "MissionProfile_update (mission s) a dt = Inr (m, a')" and
    s': "s' = check_collisions (s\<lparr>aircraft := a', mission := m\<rparr>) dt"
    by blast
  have "config a' = config Aircraft_default"
    using Aircraft_update_config[OF a] MissionProfile_update_config[OF m] assms(2) by simp
  moreover have "map reset_segment (segments m) = create_default_mission"
    using MissionProfile_update_step[OF m] assms(3) by simp
  ultimately show ?thesis by (simp add: s' check_collisions_restorable)
qed

lemma run_restorable:
  assumes "run s frs = Inr s'"
    and "config (aircraft s) = config Aircraft_default"
    and "map reset_segment (segments (mission s)) = create_default_mission"
  shows "config (aircraft s') = config Aircraft_default
    \<and> map reset_segment (segments (mission s')) = create_default_mission"
  using assms
proof (induction frs arbitrary: s)
  case Nil
  then show ?case by simp
next
  case (Cons fr frs)
  show ?case
  proof (cases "running s")
    case False
    with Cons.prems show ?thesis by simp
  next
    case True
    obtain evs dt keys where fr: "fr = (evs, dt, keys)" by (cases fr) auto
    from Cons.prems(1) True fr obtain s1 where
      u: "FlightSimulator_update (handle_events s evs) dt keys = Inr s1" and
      r: "run s1 frs = Inr s'"
      by (auto simp: tick_def split: sum.splits)
    from handle_events_restorable[OF Cons.prems(2,3), of evs]
    have h: "config (aircraft (handle_events s evs)) = config Aircraft_default"
      "map reset_segment (segments (mission (handle_events s evs))) = create_default_mission"
      by simp_all
    from FlightSimulator_update_restorable[OF u h]
    have "config (aircraft s1) = config Aircraft_default"
      "map reset_segment (segments (mission s1)) = create_default_mission" by simp_all
    from Cons.IH[OF r this] show ?thesis .
  qed
qed

text \<open>
  Claim C9. After any run of the driver, and any events of the next frame,
  \<^verbatim>\<open>reset_simulation\<close> gives back the initial aircraft (position (0,500,0), velocity
  (0,0,100), rotation (0,0,0), throttle 0.5, fuel at 80% of the capacity, no samples),
  the initial mission (cursor 0, six segments with \<open>completed\<close> false and progress 0,
  no samples) and the initial collision state (not crashed, no warning, timer 0). The
  switch of the mission display, which is no part of that state, keeps its value.
\<close>

theorem reset_restores_initial_state:
  assumes "run (FlightSimulator_init w) frs = Inr s0" and "s = handle_events s0 evs"
  shows "aircraft (reset_simulation s) = Aircraft_default
    \<and> mission (reset_simulation s)
        = MissionProfile_init\<lparr>display_enabled := display_enabled (mission s)\<rparr>
    \<and> \<not> crashed (reset_simulation s)
    \<and> \<not> collision_warning (reset_simulation s)
    \<and> warning_timer (reset_simulation s) = 0"
proof -
  have i: "config (aircraft (FlightSimulator_init w)) = config Aircraft_default"
    "map reset_segment (segments (mission (FlightSimulator_init w))) = create_default_mission"
    by (simp_all add: FlightSimulator_init_def MissionProfile_init_def reset_default_mission)
  from run_restorable[OF assms(1) i] have
    "config (aircraft s0) = config Aircraft_default"
    "map reset_segment (segments (mission s0)) = create_default_mission" by simp_all
  from handle_events_restorable[OF this, of evs] have
    "config (aircraft s) = config Aircraft_default"
    "map reset_segment (segments (mission s)) = create_default_mission"
    by (simp_all add: assms(2))
  then show ?thesis
    by (simp add: reset_simulation_def Aircraft_reset_default MissionProfile_reset_init)
qed

text \<open>
  The contents of the initial aircraft and mission.
\<close>

lemma initial_state_vector:
  "position Aircraft_default = Vec 0 500 0"
  "velocity Aircraft_default = Vec 0 0 100"
  "rotation Aircraft_default = Vec 0 0 0"
  "throttle Aircraft_default = 0.5"
  "fuel_mass Aircraft_default = 0.8 * fuel_capacity Aircraft_default"
  "mission_data Aircraft_default = empty_mission_data"
  "current_segment_index MissionProfile_init = 0"
  "length (segments MissionProfile_init) = 6"
  "map completed (segments MissionProfile_init) = [False, False, False, False, False, False]"
  "map progress (segments MissionProfile_init) = [0, 0, 0, 0, 0, 0]"
  "profile_data MissionProfile_init = empty_profile_data"
  by (simp_all add: Aircraft_default_simps MissionProfile_init_def create_default_mission_def
      MissionSegment_init_def)

theorem reset_restores_initial_state_witness:
  "\<exists>s. run (FlightSimulator_init mesa) [quiet_frame] = Inr s \<and> crashed s
     \<and> handle_event s (KEYDOWN K_r) = reset_simulation (handle_events s [])
     \<and> aircraft (reset_simulation (handle_events s [])) = Aircraft_default
     \<and> mission (reset_simulation (handle_events s []))
         = MissionProfile_init\<lparr>display_enabled := display_enabled (mission (handle_events s []))\<rparr>
     \<and> \<not> crashed (reset_simulation (handle_events s []))
     \<and> \<not> collision_warning (reset_simulation (handle_events s []))
     \<and> warning_timer (reset_simulation (handle_events s [])) = 0"
proof -
  from crash_reached_in_run obtain s where
    s: "run (FlightSimulator_init mesa) [quiet_frame] = Inr s" "crashed s" by blast
  from reset_restores_initial_state[OF s(1) refl, of "[]"] s handle_event_restart[OF s(2)]
  show ?thesis by (auto simp: handle_events_Nil)
qed

section \<open>Fuel and altitude over the frames of the driver\<close>

text \<open>
  In the driver the mission sets the throttle between two calls of \<^verbatim>\<open>Aircraft.update\<close>.
  It never makes it negative and never touches the fuel or the position, so the fuel law
  and the altitude limits hold frame by frame as well.
\<close>

lemma execute_wuto_fuel:
  "execute_wuto seg a dt = Inr (seg', a') \<Longrightarrow> 0 \<le> dt \<Longrightarrow> 0 \<le> throttle a \<Longrightarrow>
     fuel_mass a' = fuel_mass a \<and> 0 \<le> throttle a' \<and> position a' = position a"
  by (auto simp: execute_wuto_def split: if_splits option.splits)

lemma execute_climb_fuel:
  "execute_climb seg a dt = Inr (seg', a') \<Longrightarrow> 0 \<le> dt \<Longrightarrow> 0 \<le> throttle a \<Longrightarrow>
     fuel_mass a' = fuel_mass a \<and> 0 \<le> throttle a' \<and> position a' = position a"
  by (auto simp: execute_climb_def Let_def split: if_splits option.splits)

lemma execute_cruise_fuel:
  "execute_cruise seg a dt = Inr (seg', a') \<Longrightarrow> 0 \<le> dt \<Longrightarrow> 0 \<le> throttle a \<Longrightarrow>
     fuel_mass a' = fuel_mass a \<and> 0 \<le> throttle a' \<and> position a' = position a"
  by (auto simp: execute_cruise_def Let_def split: if_splits option.splits)

lemma execute_turn_fuel:
  "execute_turn seg a dt = Inr (seg', a') \<Longrightarrow> 0 \<le> dt \<Longrightarrow> 0 \<le> throttle a \<Longrightarrow>
     fuel_mass a' = fuel_mass a \<and> 0 \<le> throttle a' \<and> position a' = position a"
  by (auto simp: execute_turn_def Let_def split: if_splits option.splits)

lemma execute_descent_fuel:
  "execute_descent seg a dt = Inr (seg', a') \<Longrightarrow> 0 \<le> dt \<Longrightarrow> 0 \<le> throttle a \<Longrightarrow>
     fuel_mass a' = fuel_mass a \<and> 0 \<le> throttle a' \<and> position a' = position a"
  by (auto simp: execute_descent_def Let_def split: if_splits option.splits)

lemma execute_landing_fuel:
  "execute_landing seg a dt = Inr (seg', a') \<Longrightarrow> 0 \<le> dt \<Longrightarrow> 0 \<le> throttle a \<Longrightarrow>
     fuel_mass a' = fuel_mass a \<and> 0 \<le> throttle a' \<and> position a' = position a"
  by (auto simp: execute_landing_def Let_def split: if_splits option.splits)

lemma execute_segment_fuel:
  assumes "execute_segment seg a dt = Inr (seg', a')" "0 \<le> dt" "0 \<le> throttle a"
  shows "fuel_mass a' = fuel_mass a \<and> 0 \<le> throttle a' \<and> position a' = position a"
proof -
  let ?a = "a\<lparr>mission_data := (mission_data a)\<lparr>md_phase := name seg\<rparr>\<rparr>"
  have t: "0 \<le> throttle ?a" using assms(3) by simp
  have "fuel_mass a' = fuel_mass ?a \<and> 0 \<le> throttle a' \<and> position a' = position ?a"
    using assms(1,2) t
      execute_wuto_fuel[of seg ?a dt seg' a'] execute_climb_fuel[of seg ?a dt seg' a']
      execute_cruise_fuel[of seg ?a dt seg' a'] execute_turn_fuel[of seg ?a dt seg' a']
      execute_descent_fuel[of seg ?a dt seg' a'] execute_landing_fuel[of seg ?a dt seg' a']
    unfolding execute_segment_def Let_def
    by (auto split: if_splits)
  then show ?thesis by simp
qed

lemma MissionProfile_update_fuel:
  assumes "MissionProfile_update m a dt = Inr (m', a')" "0 \<le> dt" "0 \<le> throttle a"
  shows "fuel_mass a' = fuel_mass a \<and> 0 \<le> throttle a' \<and> position a' = position a"
proof (cases "mission_complete m \<or> current_segment_index m \<ge> length (segments m)")
  case True
  then show ?thesis using assms MissionProfile_update_idle[of m a dt] by auto
next
  case False
  from assms(1) False obtain seg a1 where
    e: "execute_segment (segments m ! current_segment_index m) a dt = Inr (seg, a1)"
    by (auto simp: MissionProfile_update_def split: sum.splits)
  with assms(1) False have
    "a' = a1 \<or> a' = a1\<lparr>mission_data := (mission_data a1)\<lparr>md_phase := ''COMPLETE''\<rparr>\<rparr>"
    by (auto simp: MissionProfile_update_def Let_def split: if_splits)
  with execute_segment_fuel[OF e assms(2,3)] show ?thesis by auto
qed

lemma FlightSimulator_update_fuel:
  assumes u: "FlightSimulator_update s dt keys = Inr s'" and dt: "0 \<le> dt"
    and "0 \<le> fuel_mass (aircraft s)" "0 \<le> throttle (aircraft s)"
    and "0 \<le> fuel_flow_rate (aircraft s)"
  shows "fuel_mass (aircraft s') \<le> fuel_mass (aircraft s) \<and> 0 \<le> fuel_mass (aircraft s')
    \<and> 0 \<le> throttle (aircraft s') \<and> fuel_flow_rate (aircraft s') = fuel_flow_rate (aircraft s)"
proof (cases "paused s \<or> crashed s")
  case True
  with assms FlightSimulator_update_frozen[of s dt keys] show ?thesis by auto
next
  case False
  then have np: "\<not> paused s" and nc: "\<not> crashed s" by auto
  from FlightSimulator_update_active[OF u np nc] obtain a m a' where
    a: "Aircraft_update (aircraft s) dt keys = Inr a" and
    m: "MissionProfile_update (mission s) a dt = Inr (m, a')" and
    s': "s' = check_collisions (s\<lparr>aircraft := a', mission := m\<rparr>) dt"
    by blast
  note fa = Aircraft_update_fuel_step[OF a assms(3,4,5) dt]
  note fm = MissionProfile_update_fuel[OF m dt fa(3)]
  have ca: "config a' = config (aircraft s)"
    using Aircraft_update_config[OF a] MissionProfile_update_config[OF m] by simp
  have cc: "fuel_mass (aircraft s') = fuel_mass a'" "throttle (aircraft s') = throttle a'"
    "fuel_flow_rate (aircraft s') = fuel_flow_rate a'"
    by (simp_all add: s' check_collisions_def Let_def)
  from ca have "fuel_flow_rate a' = fuel_flow_rate (aircraft s)" by (simp add: config_def)
  with fa fm cc show ?thesis by simp
qed

lemma FlightSimulator_update_envelope:
  assumes u: "FlightSimulator_update s dt keys = Inr s'" "\<not> paused s" "\<not> crashed s"
  shows "10 \<le> vy (position (aircraft s')) \<and> vy (position (aircraft s')) \<le> service_ceiling"
proof -
  from FlightSimulator_update_active[OF u] obtain a m a' where
    a: "Aircraft_update (aircraft s) dt keys = Inr a" and
    m: "MissionProfile_update (mission s) a dt = Inr (m, a')" and
    s': "s' = check_collisions (s\<lparr>aircraft := a', mission := m\<rparr>) dt"
    by blast
  from a obtain b where p: "update_physics (update_controls (aircraft s) dt keys) dt = Inr b"
    and c: "a = update_mission_data (snd (update_fuel b dt)) dt"
    by (rule Aircraft_update_Inr)
  have pa: "position a = position b"
    by (simp add: c update_mission_data_kinematics update_fuel_kinematics)
  have "position a' = position a"
  proof (cases "mission_complete (mission s)
      \<or> current_segment_index (mission s) \<ge> length (segments (mission s))")
    case True
    then show ?thesis using m MissionProfile_update_idle[of "mission s" a dt] by auto
  next
    case False
    from m False obtain seg a1 where
      e: "execute_segment (segments (mission s) ! current_segment_index (mission s)) a dt
            = Inr (seg, a1)"
      by (auto simp: MissionProfile_update_def split: sum.splits)
    with m False have
      "a' = a1 \<or> a' = a1\<lparr>mission_data := (mission_data a1)\<lparr>md_phase := ''COMPLETE''\<rparr>\<rparr>"
      by (auto simp: MissionProfile_update_def Let_def split: if_splits)
    moreover have "position a1 = position a"
      using e
      unfolding execute_segment_def Let_def
      by (auto simp: execute_wuto_def execute_climb_def execute_cruise_def execute_turn_def
          execute_descent_def execute_landing_def Let_def split: if_splits option.splits)
    ultimately show ?thesis by auto
  qed
  moreover have "position (aircraft s') = position a'"
    by (simp add: s' check_collisions_def Let_def)
  ultimately show ?thesis using update_physics_bounds[OF p] pa by simp
qed

end
